theory Spec2Isabelle
  imports Main "HOL-Library.Char_ord" "HOL-Library.List_Lexorder"
begin

section \<open>Python text\<close>

text \<open>
  A Python \<open>str\<close> is modelled as a \<open>string\<close>: the list of its code points, each
  below 256. Whitespace is classified as Python does on that range; letter case is
  classified on the ASCII letters only, so the statements about case below speak of
  ASCII text.
\<close>

definition ascii_lowercase :: string where
  "ascii_lowercase = ''abcdefghijklmnopqrstuvwxyz''"

definition ascii_uppercase :: string where
  "ascii_uppercase = ''ABCDEFGHIJKLMNOPQRSTUVWXYZ''"

definition ascii_digits :: string where
  "ascii_digits = ''0123456789''"

definition char_islower :: "char \<Rightarrow> bool" where
  "char_islower c \<longleftrightarrow> c \<in> set ascii_lowercase"

definition char_isupper :: "char \<Rightarrow> bool" where
  "char_isupper c \<longleftrightarrow> c \<in> set ascii_uppercase"

definition char_isdigit :: "char \<Rightarrow> bool" where
  "char_isdigit c \<longleftrightarrow> c \<in> set ascii_digits"

definition char_upper :: "char \<Rightarrow> char" where
  "char_upper c = (case map_of (zip ascii_lowercase ascii_uppercase) c of
                     None \<Rightarrow> c | Some u \<Rightarrow> u)"

definition char_lower :: "char \<Rightarrow> char" where
  "char_lower c = (case map_of (zip ascii_uppercase ascii_lowercase) c of
                     None \<Rightarrow> c | Some l \<Rightarrow> l)"

definition str_upper :: "string \<Rightarrow> string" where
  "str_upper s = map char_upper s"

definition str_lower :: "string \<Rightarrow> string" where
  "str_lower s = map char_lower s"

text \<open>\<open>str.capitalize\<close>: the first character upper-cased, every other one lower-cased.\<close>

fun str_capitalize :: "string \<Rightarrow> string" where
  "str_capitalize [] = []"
| "str_capitalize (c # cs) = char_upper c # map char_lower cs"

text \<open>\<open>str.isupper\<close>: no lower-case character and at least one upper-case one.\<close>

definition str_isupper :: "string \<Rightarrow> bool" where
  "str_isupper s \<longleftrightarrow> \<not> list_ex char_islower s \<and> list_ex char_isupper s"

text \<open>
  \<open>str.istitle\<close>, as CPython scans it: an upper-case character may only follow an
  uncased one, a lower-case character only a cased one, and one cased character is needed.
  The first argument is \<open>previous_is_cased\<close>, the second \<open>cased\<close>.
\<close>

fun istitle_scan :: "bool \<Rightarrow> bool \<Rightarrow> string \<Rightarrow> bool" where
  "istitle_scan prev cased [] = cased"
| "istitle_scan prev cased (c # cs) =
     (if char_isupper c then (if prev then False else istitle_scan True True cs)
      else if char_islower c then (if \<not> prev then False else istitle_scan True True cs)
      else istitle_scan False cased cs)"

definition str_istitle :: "string \<Rightarrow> bool" where
  "str_istitle s = istitle_scan False False s"

text \<open>\<open>str.isspace\<close> per character and \<open>str.strip()\<close>.\<close>

definition py_isspace :: "char \<Rightarrow> bool" where
  "py_isspace c \<longleftrightarrow> c \<in> set [CHR 0x09, CHR 0x0A, CHR 0x0B, CHR 0x0C, CHR 0x0D,
                               CHR 0x1C, CHR 0x1D, CHR 0x1E, CHR 0x1F, CHR 0x20,
                               CHR 0x85, CHR 0xA0]"

definition py_strip :: "string \<Rightarrow> string" where
  "py_strip s = rev (dropWhile py_isspace (rev (dropWhile py_isspace s)))"

text \<open>\<open>sep.join(parts)\<close>.\<close>

fun py_join :: "string \<Rightarrow> string list \<Rightarrow> string" where
  "py_join sep [] = []"
| "py_join sep [x] = x"
| "py_join sep (x # y # ys) = x @ sep @ py_join sep (y # ys)"

section \<open>JSON values and errors\<close>

text \<open>
  What \<open>json.load\<close> returns: \<open>None\<close>, a bool, a number, a string, a list or a dict
  (kept as its items in order). Numbers are kept as integers.
\<close>

datatype jval =
    JNull
  | JBool bool
  | JNum int
  | JStr string
  | JArr "jval list"
  | JObj "(string \<times> jval) list"

text \<open>Python's truth value of a loaded JSON value.\<close>

fun truthy :: "jval \<Rightarrow> bool" where
  "truthy JNull = False"
| "truthy (JBool b) = b"
| "truthy (JNum n) = (n \<noteq> 0)"
| "truthy (JStr s) = (s \<noteq> [])"
| "truthy (JArr xs) = (xs \<noteq> [])"
| "truthy (JObj kvs) = (kvs \<noteq> [])"

text \<open>
  The exceptions of the program, as values. \<open>MissingColumns\<close> is the learner's
  \<open>ValueError("CSV missing columns: ...")\<close> with the list it prints, \<open>MissingColumn\<close>
  the filler's \<open>ValueError("Missing column: ...")\<close>, \<open>GatewayError\<close> whatever the
  gateway raised, with its text, \<open>ValidationError\<close> pydantic's, with the name of the first
  offending field.
\<close>

datatype error =
    MissingColumns "string list"
  | MissingColumn string
  | GatewayError string
  | JSONDecodeError
  | ValidationError string
  | FileNotFoundError
  | AttributeError
  | TypeError

text \<open>A dict as its items in insertion order; \<open>d[k] = v\<close> keeps the place of a key
  that is already there.\<close>

fun dict_set :: "'k \<Rightarrow> 'v \<Rightarrow> ('k \<times> 'v) list \<Rightarrow> ('k \<times> 'v) list" where
  "dict_set k v [] = [(k, v)]"
| "dict_set k v ((k', v') # kvs) =
     (if k = k' then (k, v) # kvs else (k', v') # dict_set k v kvs)"

section \<open>Lexical Normalizer (agents/normalizer.py)\<close>

definition DEFAULT_KBBI_MAP :: "(string \<times> jval) list" where
  "DEFAULT_KBBI_MAP = [(''udah'', JStr ''sudah'')]"

text \<open>
  The pattern \<open>\b([\w\-']+)\b\<close>. \<open>is_word\<close> is \<open>\w\<close>, \<open>tok_char\<close> the character
  class, \<open>boundary\<close> is \<open>\b\<close> between the character before a position and the one at it
  (\<open>None\<close> at either end of the text).
\<close>

definition is_word :: "char \<Rightarrow> bool" where
  "is_word c \<longleftrightarrow> char_islower c \<or> char_isupper c \<or> char_isdigit c \<or> c = CHR ''_''"

definition tok_char :: "char \<Rightarrow> bool" where
  "tok_char c \<longleftrightarrow> is_word c \<or> c = CHR ''-'' \<or> c = CHR 0x27"

fun is_word_opt :: "char option \<Rightarrow> bool" where
  "is_word_opt None = False"
| "is_word_opt (Some c) = is_word c"

definition boundary :: "char option \<Rightarrow> char option \<Rightarrow> bool" where
  "boundary p n \<longleftrightarrow> is_word_opt p \<noteq> is_word_opt n"

text \<open>
  The greedy class with backtracking: after a match that ends in \<open>p\<close>, the largest number
  of further class characters of the rest after which \<open>\b\<close> holds, if there is one.
\<close>

fun best_end :: "char \<Rightarrow> string \<Rightarrow> nat option" where
  "best_end p [] = (if boundary (Some p) None then Some 0 else None)"
| "best_end p (x # xs) =
     (case (if tok_char x then best_end x xs else None) of
        Some j \<Rightarrow> Some (Suc j)
      | None \<Rightarrow> if boundary (Some p) (Some x) then Some 0 else None)"

text \<open>A match at the head of \<open>x # xs\<close>, the character before it being \<open>p\<close>: the number of
  characters of \<open>xs\<close> it takes after \<open>x\<close>.\<close>

definition match_here :: "char option \<Rightarrow> char \<Rightarrow> string \<Rightarrow> nat option" where
  "match_here p x xs =
     (if boundary p (Some x) \<and> tok_char x then best_end x xs else None)"

text \<open>\<open>_match_casing(src, dst)\<close>; \<open>dst\<close> is whatever the map holds.\<close>

fun match_casing :: "string \<Rightarrow> jval \<Rightarrow> error + jval" where
  "match_casing src dst =
     (if str_isupper src then
        (case dst of JStr d \<Rightarrow> Inr (JStr (str_upper d)) | _ \<Rightarrow> Inl AttributeError)
      else if str_istitle src then
        (case dst of JStr d \<Rightarrow> Inr (JStr (str_capitalize d)) | _ \<Rightarrow> Inl AttributeError)
      else Inr dst)"

text \<open>The inner function \<open>repl\<close>, on the matched token.\<close>

definition repl :: "(string \<times> jval) list \<Rightarrow> string \<Rightarrow> error + jval" where
  "repl mapping w =
     (let low = str_lower w in
      case map_of mapping low of
        Some dst \<Rightarrow> match_casing w dst
      | None \<Rightarrow> Inr (JStr w))"

text \<open>
  \<open>_WORD_RE.sub(repl, text)\<close>: the scan from left to right collects the pieces, a
  character outside every match as it is and the value of \<open>repl\<close> for a match (a \<open>None\<close>
  is left out); an exception of \<open>repl\<close> ends the scan.
\<close>

fun sub_scan :: "(string \<Rightarrow> error + jval) \<Rightarrow> char option \<Rightarrow> string \<Rightarrow> error + jval list" where
  "sub_scan f p [] = Inr []"
| "sub_scan f p (x # xs) =
     (case match_here p x xs of
        Some j \<Rightarrow>
          (case f (x # take j xs) of
             Inl e \<Rightarrow> Inl e
           | Inr v \<Rightarrow>
               (case sub_scan f (Some (last (x # take j xs))) (drop j xs) of
                  Inl e \<Rightarrow> Inl e
                | Inr vs \<Rightarrow> Inr ((if v = JNull then [] else [v]) @ vs)))
      | None \<Rightarrow>
          (case sub_scan f (Some x) xs of
             Inl e \<Rightarrow> Inl e
           | Inr vs \<Rightarrow> Inr (JStr [x] # vs)))"

text \<open>The pieces are joined at the end; one that is not a string is a \<open>TypeError\<close>.\<close>

fun join_pieces :: "jval list \<Rightarrow> error + string" where
  "join_pieces [] = Inr []"
| "join_pieces (JStr s # vs) =
     (case join_pieces vs of Inl e \<Rightarrow> Inl e | Inr r \<Rightarrow> Inr (s @ r))"
| "join_pieces (v # vs) = Inl TypeError"

definition re_sub :: "(string \<Rightarrow> error + jval) \<Rightarrow> string \<Rightarrow> error + string" where
  "re_sub f text = (case sub_scan f None text of Inl e \<Rightarrow> Inl e | Inr vs \<Rightarrow> join_pieces vs)"

text \<open>
  The effective map: the defaults, updated with the lower-cased keys of \<open>custom_map\<close> when
  that is truthy. \<open>custom_map.items()\<close> exists for a dict only.
\<close>

definition effective_map :: "jval option \<Rightarrow> error + (string \<times> jval) list" where
  "effective_map custom_map =
     (case custom_map of
        None \<Rightarrow> Inr DEFAULT_KBBI_MAP
      | Some c \<Rightarrow>
          if \<not> truthy c then Inr DEFAULT_KBBI_MAP
          else (case c of
                  JObj kvs \<Rightarrow> Inr (fold (\<lambda>(k, v) m. dict_set (str_lower k) v m) kvs DEFAULT_KBBI_MAP)
                | _ \<Rightarrow> Inl AttributeError))"

definition normalize_indonesian :: "string \<Rightarrow> jval option \<Rightarrow> error + string" where
  "normalize_indonesian text custom_map =
     (case effective_map custom_map of
        Inl e \<Rightarrow> Inl e
      | Inr mapping \<Rightarrow> re_sub (repl mapping) text)"



section \<open>Tables, personas and the gateway\<close>

text \<open>
  A table as pandas holds it after loading: the column names and the rows, a cell being
  \<open>None\<close> for a missing value (NaN) and \<open>Some s\<close> for a value whose \<open>str()\<close> is \<open>s\<close>.
  Rows are addressed by position.
\<close>

type_synonym cell = "string option"

record dataframe =
  columns :: "string list"
  rows :: "cell list list"

definition col_index :: "string list \<Rightarrow> string \<Rightarrow> nat" where
  "col_index cols c = length (takeWhile (\<lambda>x. x \<noteq> c) cols)"

definition cell_at :: "cell list \<Rightarrow> nat \<Rightarrow> cell" where
  "cell_at row j = (if j < length row then row ! j else None)"

definition get_cell :: "dataframe \<Rightarrow> nat \<Rightarrow> string \<Rightarrow> cell" where
  "get_cell df i c = cell_at (rows df ! i) (col_index (columns df) c)"

text \<open>\<open>df.at[i, c] = v\<close>.\<close>

definition set_cell :: "dataframe \<Rightarrow> nat \<Rightarrow> string \<Rightarrow> string \<Rightarrow> dataframe" where
  "set_cell df i c v =
     df\<lparr>rows := (rows df)[i := (rows df ! i)[col_index (columns df) c := Some v]]\<rparr>"

text \<open>\<open>df[c] = ""\<close> for a column that is not there yet.\<close>

definition add_column :: "dataframe \<Rightarrow> string \<Rightarrow> dataframe" where
  "add_column df c = \<lparr>columns = columns df @ [c], rows = map (\<lambda>r. r @ [Some []]) (rows df)\<rparr>"

text \<open>\<open>if c not in df.columns: df[c] = ""\<close>.\<close>

definition ensure_column :: "dataframe \<Rightarrow> string \<Rightarrow> dataframe" where
  "ensure_column df c = (if c \<notin> set (columns df) then add_column df c else df)"

text \<open>\<open>str(x) if pd.notna(x) else ""\<close> and \<open>not s.strip()\<close>.\<close>

definition cell_text :: "cell \<Rightarrow> string" where
  "cell_text c = (case c of None \<Rightarrow> [] | Some s \<Rightarrow> s)"

definition is_blank :: "string \<Rightarrow> bool" where
  "is_blank s \<longleftrightarrow> py_strip s = []"

text \<open>
  The Persona Profile (\<open>PersonaProfile\<close> of agents/persona\_learner.py), which is also the
  dict \<open>model_dump()\<close> returns. A persona handed to the filler is such a dict or the empty
  dict, \<open>None\<close> here.
\<close>

record persona_profile =
  character_id :: string
  target_lang :: string
  tone :: string
  quirks :: "string list"
  pronouns :: "string option"
  formality :: "string option"
  punctuation_habits :: "string option"
  lexical_preferences :: "string list"
  style_rules_en :: "string list"
  style_rules_id :: "string list"
  profile_notes :: "string option"  \<comment> \<open>the field \<open>notes\<close>\<close>

text \<open>
  The Text Completion Gateway \<open>llm_call(system, user)\<close> is outside the program: the
  \<open>n\<close>-th call of a run (from 0) with these prompts returns the text \<open>Inr out\<close> or raises,
  \<open>Inl msg\<close> being the text of what it raised.
\<close>

type_synonym gateway = "nat \<Rightarrow> string \<Rightarrow> string \<Rightarrow> string + string"

text \<open>\<open>str(n)\<close> of an integer, for the f-strings.\<close>

fun str_nat :: "nat \<Rightarrow> string" where
  "str_nat n = (if n < 10 then [ascii_digits ! n]
                else str_nat (n div 10) @ [ascii_digits ! (n mod 10)])"

declare str_nat.simps [simp del]

definition str_int :: "int \<Rightarrow> string" where
  "str_int i = (if i < 0 then CHR ''-'' # str_nat (nat (- i)) else str_nat (nat i))"

definition newline :: string where
  "newline = [CHR 0x0A]"

section \<open>Translation Filler, command line (fill\_translations.py)\<close>

definition build_system :: string where
  "build_system = py_join newline
     [''You are a professional game localization translator.'',
      ''Preserve placeholders/tags exactly (e.g., {NICKNAME}, {PLAYER_NAME}, <color=...> ... </color>).'',
      ''Follow the character persona and mimic tone and quirks.'',
      ''Output only the translation.'']"

definition or_none :: "string \<Rightarrow> string" where
  "or_none s = (if s = [] then ''none'' else s)"

definition lang_name :: "string \<Rightarrow> string" where
  "lang_name tgt_lang = (if tgt_lang = ''id'' then ''Indonesian'' else ''English'')"

definition build_user :: "string \<Rightarrow> persona_profile option \<Rightarrow> string \<Rightarrow> string" where
  "build_user src_cn persona tgt_lang =
     (let tone_v = (case persona of None \<Rightarrow> ''neutral'' | Some p \<Rightarrow> tone p);
          quirks_v = or_none (py_join '', '' (case persona of None \<Rightarrow> [] | Some p \<Rightarrow> quirks p));
          rules_v = or_none (py_join '', ''
                      (case persona of
                         None \<Rightarrow> []
                       | Some p \<Rightarrow> if tgt_lang = ''id'' then style_rules_id p else style_rules_en p))
      in py_strip (py_join newline
           [[],
            ''Translate from Chinese (Simplified) to '' @ lang_name tgt_lang @ ''.'',
            [],
            ''Persona:'',
            ''- Tone: '' @ tone_v,
            ''- Quirks: '' @ quirks_v,
            ''- Rules: '' @ rules_v,
            [],
            ''Untranslatable tokens (preserve verbatim): patterns like {NICKNAME}, {PLAYER_NAME},'',
            ''and tags like <color=...> ... </color>. Do not remove or translate them.'',
            [],
            ''Text:'',
            src_cn,
            [],
            ''Requirements:'',
            ''1) Preserve placeholders/tags exactly.'',
            ''2) Keep sentences concise for UI.'',
            ''3) Match persona tone/quirks.'',
            ''4) Output only translated text.'',
            []]))"

text \<open>
  The state of a run: the table filled in place, the prompts sent to the gateway so far,
  the counters and what was printed.
\<close>

record fill_state =
  table :: dataframe
  sent :: "(string \<times> string) list"
  filled :: nat
  processed :: nat
  printed :: "string list"

text \<open>
  One turn of the loop of \<open>main\<close>, for the row at position \<open>i\<close>. An exception of the
  gateway is caught and printed; one of the normalizer is not caught and leaves the loop.
  The autosave checkpoint, the sleep and the progress line touch no cell and are left out.
\<close>

definition cli_row ::
  "gateway \<Rightarrow> persona_profile option \<Rightarrow> jval option \<Rightarrow> string \<Rightarrow> string \<Rightarrow> bool \<Rightarrow> bool \<Rightarrow>
   nat \<Rightarrow> nat \<Rightarrow> fill_state \<Rightarrow> error + fill_state" where
  "cli_row gw persona custom_map cn_col id_col overwrite kbbi n_total i st =
     (let st1 = st\<lparr>processed := Suc (processed st)\<rparr>;
          src = cell_text (get_cell (table st1) i cn_col)
      in if is_blank src then Inr st1
         else
           let tgt_existing = cell_text (get_cell (table st1) i id_col)
           in if \<not> is_blank tgt_existing \<and> \<not> overwrite then Inr st1
              else
                let user_prompt = build_user src persona ''id'';
                    st2 = st1\<lparr>sent := sent st1 @ [(build_system, user_prompt)]\<rparr>
                in case gw (length (sent st1)) build_system user_prompt of
                     Inl e \<Rightarrow>
                       Inr (st2\<lparr>printed := printed st2 @
                              [''['' @ str_nat (processed st2) @ ''/'' @ str_nat n_total @ ''] ERROR: '' @ e]\<rparr>)
                   | Inr out \<Rightarrow>
                       (case (if kbbi then normalize_indonesian out custom_map else Inr out) of
                          Inl e \<Rightarrow> Inl e
                        | Inr out' \<Rightarrow>
                            Inr (st2\<lparr>table := set_cell (table st2) i id_col out',
                                     filled := Suc (filled st2)\<rparr>)))"

text \<open>The loop over the rows: an exception that leaves a turn leaves the loop.\<close>

fun run_rows :: "(nat \<Rightarrow> 's \<Rightarrow> error + 's) \<Rightarrow> nat list \<Rightarrow> 's \<Rightarrow> error + 's" where
  "run_rows step [] st = Inr st"
| "run_rows step (i # is) st =
     (case step i st of Inl e \<Rightarrow> Inl e | Inr st' \<Rightarrow> run_rows step is st')"

text \<open>
  \<open>main\<close>, from the loaded table on: the source column must be there, the target column
  is created empty when it is not. The result is the state at the final save, or the
  exception that ended the run.
\<close>

definition fill_main ::
  "gateway \<Rightarrow> persona_profile option \<Rightarrow> jval option \<Rightarrow> string \<Rightarrow> string \<Rightarrow> bool \<Rightarrow> bool \<Rightarrow>
   dataframe \<Rightarrow> error + fill_state" where
  "fill_main gw persona custom_map cn_col id_col overwrite kbbi df =
     (if cn_col \<notin> set (columns df) then Inl (MissingColumn cn_col)
      else
        let df1 = ensure_column df id_col;
            n_total = length (rows df1)
        in run_rows (cli_row gw persona custom_map cn_col id_col overwrite kbbi n_total)
             [0..<n_total]
             \<lparr>table = df1, sent = [], filled = 0, processed = 0, printed = []\<rparr>)"

section \<open>Translation Filler, web form (streamlit\_app.py)\<close>

definition truthy_opt :: "string option \<Rightarrow> bool" where
  "truthy_opt v = (case v of None \<Rightarrow> False | Some s \<Rightarrow> s \<noteq> [])"

definition nonempty_items :: "string list \<Rightarrow> string list" where
  "nonempty_items xs = filter (\<lambda>q. q \<noteq> []) xs"

definition persona_to_lines :: "persona_profile option \<Rightarrow> string \<Rightarrow> string" where
  "persona_to_lines persona tgt_lang =
     (case persona of
        None \<Rightarrow> ''Use neutral tone.''
      | Some p \<Rightarrow>
          let rules = (if tgt_lang = ''id'' then style_rules_id p else style_rules_en p);
              lines =
                (if tone p \<noteq> [] then [''Tone: '' @ tone p] else []) @
                (if truthy_opt (formality p) then [''Formality: '' @ cell_text (formality p)] else []) @
                (if truthy_opt (pronouns p)
                 then [''Preferred pronouns/register: '' @ cell_text (pronouns p)] else []) @
                (if truthy_opt (punctuation_habits p)
                 then [''Punctuation habits: '' @ cell_text (punctuation_habits p)] else []) @
                (if quirks p \<noteq> []
                 then [''Quirks: '' @ py_join '', '' (nonempty_items (quirks p))] else []) @
                (if lexical_preferences p \<noteq> []
                 then [''Lexical preferences: '' @ py_join '', '' (nonempty_items (lexical_preferences p))]
                 else []) @
                (if rules \<noteq> [] then [''Style rules: '' @ py_join '', '' (nonempty_items rules)] else [])
          in if lines \<noteq> [] then py_join newline lines else ''Use neutral tone.'')"

definition web_build_user :: "string \<Rightarrow> persona_profile option \<Rightarrow> string \<Rightarrow> string" where
  "web_build_user src_cn persona tgt_lang =
     py_strip (py_join newline
       [[],
        ''Translate from Chinese (Simplified) to '' @ lang_name tgt_lang @ ''.'',
        [],
        ''Persona guidance:'',
        persona_to_lines persona tgt_lang,
        [],
        ''Keep placeholders/tags verbatim: tokens like {NICKNAME}, {PLAYER_NAME}, and tags such as <color=...> ... </color>.'',
        ''Do not translate or remove them. Keep lines concise and suitable for UI/dialog.'',
        [],
        ''Text:'',
        src_cn,
        [],
        ''Output only the translation.'',
        []])"

text \<open>
  One turn of the loop of the \<open>Run Translation\<close> handler. The normalizer runs in a
  \<open>try\<close> of its own whose handler passes; the outer handler writes \<open>existing\<close> back
  and reports the row.
\<close>

definition web_row ::
  "gateway \<Rightarrow> persona_profile option \<Rightarrow> bool \<Rightarrow> bool \<Rightarrow> bool \<Rightarrow> string \<Rightarrow> jval option \<Rightarrow>
   string \<Rightarrow> string \<Rightarrow> nat \<Rightarrow> fill_state \<Rightarrow> error + fill_state" where
  "web_row gw persona no_training use_kbbi overwrite trans_lang custom_map cn_col tgt_col i st =
     (let st1 = st\<lparr>processed := Suc (processed st)\<rparr>;
          src = cell_text (get_cell (table st1) i cn_col)
      in if is_blank src then Inr st1
         else
           let existing = cell_text (get_cell (table st1) i tgt_col)
           in if \<not> is_blank existing \<and> \<not> overwrite then Inr st1
              else
                let persona_used = (if \<not> no_training then persona else None);
                    system_prompt = build_system;
                    user_prompt = web_build_user src persona_used trans_lang;
                    st2 = st1\<lparr>sent := sent st1 @ [(system_prompt, user_prompt)]\<rparr>
                in case gw (length (sent st1)) system_prompt user_prompt of
                     Inr out \<Rightarrow>
                       let out' = (if use_kbbi \<and> trans_lang = ''id''
                                   then (case normalize_indonesian out custom_map of
                                           Inl e \<Rightarrow> out
                                         | Inr r \<Rightarrow> r)
                                   else out)
                       in Inr (st2\<lparr>table := set_cell (table st2) i tgt_col out',
                                   filled := Suc (filled st2)\<rparr>)
                   | Inl e \<Rightarrow>
                       Inr (st2\<lparr>table := set_cell (table st2) i tgt_col existing,
                                printed := printed st2 @
                                  [''Row '' @ str_nat (i + 1) @ '': ERROR '' @ e]\<rparr>))"

definition web_run ::
  "gateway \<Rightarrow> persona_profile option \<Rightarrow> bool \<Rightarrow> bool \<Rightarrow> bool \<Rightarrow> string \<Rightarrow> jval option \<Rightarrow>
   string \<Rightarrow> string \<Rightarrow> dataframe \<Rightarrow> error + fill_state" where
  "web_run gw persona no_training use_kbbi overwrite trans_lang custom_map cn_col tgt_col df =
     (if cn_col \<notin> set (columns df) then Inl (MissingColumn cn_col)
      else
        let df1 = ensure_column df tgt_col
        in run_rows
             (web_row gw persona no_training use_kbbi overwrite trans_lang custom_map cn_col tgt_col)
             [0..<length (rows df1)]
             \<lparr>table = df1, sent = [], filled = 0, processed = 0, printed = []\<rparr>)"

text \<open>
  For the statements about a run: the table is rectangular; a row is selected when the
  loop reaches the gateway call for it; \<open>call_no\<close> counts the calls made before a row.
\<close>

definition wf_df :: "dataframe \<Rightarrow> bool" where
  "wf_df df \<longleftrightarrow> list_all (\<lambda>r. length r = length (columns df)) (rows df)"

definition selected :: "dataframe \<Rightarrow> string \<Rightarrow> string \<Rightarrow> bool \<Rightarrow> nat \<Rightarrow> bool" where
  "selected df cn_col tgt_col overwrite i \<longleftrightarrow>
     \<not> is_blank (cell_text (get_cell df i cn_col)) \<and>
     (is_blank (cell_text (get_cell df i tgt_col)) \<or> overwrite)"

definition call_no :: "dataframe \<Rightarrow> string \<Rightarrow> string \<Rightarrow> bool \<Rightarrow> nat \<Rightarrow> nat" where
  "call_no df cn_col tgt_col overwrite i =
     length (filter (selected df cn_col tgt_col overwrite) [0..<i])"

text \<open>
  What a run leaves in the target cell of the row at \<open>i\<close> and what it prints for that row,
  read off the table the loop starts from (\<open>df\<close> has both columns): the command-line loop
  first, the web form's second.
\<close>

definition cli_outcome ::
  "gateway \<Rightarrow> persona_profile option \<Rightarrow> jval option \<Rightarrow> string \<Rightarrow> string \<Rightarrow> bool \<Rightarrow> bool \<Rightarrow>
   dataframe \<Rightarrow> nat \<Rightarrow> cell" where
  "cli_outcome gw persona custom_map cn_col id_col overwrite kbbi df i =
     (if selected df cn_col id_col overwrite i then
        (case gw (call_no df cn_col id_col overwrite i) build_system
                (build_user (cell_text (get_cell df i cn_col)) persona ''id'') of
           Inl e \<Rightarrow> get_cell df i id_col
         | Inr out \<Rightarrow>
             (case (if kbbi then normalize_indonesian out custom_map else Inr out) of
                Inl e \<Rightarrow> get_cell df i id_col
              | Inr out' \<Rightarrow> Some out'))
      else get_cell df i id_col)"

definition cli_report ::
  "gateway \<Rightarrow> persona_profile option \<Rightarrow> string \<Rightarrow> string \<Rightarrow> bool \<Rightarrow> dataframe \<Rightarrow> nat \<Rightarrow> string list" where
  "cli_report gw persona cn_col id_col overwrite df i =
     (if selected df cn_col id_col overwrite i then
        (case gw (call_no df cn_col id_col overwrite i) build_system
                (build_user (cell_text (get_cell df i cn_col)) persona ''id'') of
           Inl e \<Rightarrow> [''['' @ str_nat (Suc i) @ ''/'' @ str_nat (length (rows df)) @ ''] ERROR: '' @ e]
         | Inr out \<Rightarrow> [])
      else [])"

definition web_outcome ::
  "gateway \<Rightarrow> persona_profile option \<Rightarrow> bool \<Rightarrow> bool \<Rightarrow> bool \<Rightarrow> string \<Rightarrow> jval option \<Rightarrow>
   string \<Rightarrow> string \<Rightarrow> dataframe \<Rightarrow> nat \<Rightarrow> cell" where
  "web_outcome gw persona no_training use_kbbi overwrite trans_lang custom_map cn_col tgt_col df i =
     (if selected df cn_col tgt_col overwrite i then
        (case gw (call_no df cn_col tgt_col overwrite i) build_system
                (web_build_user (cell_text (get_cell df i cn_col))
                   (if \<not> no_training then persona else None) trans_lang) of
           Inr out \<Rightarrow>
             Some (if use_kbbi \<and> trans_lang = ''id''
                   then (case normalize_indonesian out custom_map of Inl e \<Rightarrow> out | Inr r \<Rightarrow> r)
                   else out)
         | Inl e \<Rightarrow> Some (cell_text (get_cell df i tgt_col)))
      else get_cell df i tgt_col)"

definition web_report ::
  "gateway \<Rightarrow> persona_profile option \<Rightarrow> bool \<Rightarrow> bool \<Rightarrow> string \<Rightarrow> string \<Rightarrow> string \<Rightarrow>
   dataframe \<Rightarrow> nat \<Rightarrow> string list" where
  "web_report gw persona no_training overwrite trans_lang cn_col tgt_col df i =
     (if selected df cn_col tgt_col overwrite i then
        (case gw (call_no df cn_col tgt_col overwrite i) build_system
                (web_build_user (cell_text (get_cell df i cn_col))
                   (if \<not> no_training then persona else None) trans_lang) of
           Inl e \<Rightarrow> [''Row '' @ str_nat (i + 1) @ '': ERROR '' @ e]
         | Inr out \<Rightarrow> [])
      else [])"

text \<open>The target cell of a row in the table a run ends with, when it ends with one.\<close>

definition final_cell :: "error + fill_state \<Rightarrow> nat \<Rightarrow> string \<Rightarrow> cell option" where
  "final_cell r i c = (case r of Inl e \<Rightarrow> None | Inr st \<Rightarrow> Some (get_cell (table st) i c))"

section \<open>Persona Learner (agents/persona\_learner.py)\<close>

text \<open>Python's \<open>xs[:n]\<close> (also \<open>df.head(n)\<close>), \<open>s.find(c)\<close>, \<open>s.rfind(c)\<close> and \<open>s[a:b]\<close>.\<close>

definition py_take :: "int \<Rightarrow> 'a list \<Rightarrow> 'a list" where
  "py_take n xs = (if 0 \<le> n then take (nat n) xs else take (length xs - nat (- n)) xs)"

definition py_find :: "char \<Rightarrow> string \<Rightarrow> int" where
  "py_find c s = (if c \<in> set s then int (length (takeWhile (\<lambda>x. x \<noteq> c) s)) else - 1)"

definition py_rfind :: "char \<Rightarrow> string \<Rightarrow> int" where
  "py_rfind c s =
     (if c \<in> set s then int (length s) - 1 - int (length (takeWhile (\<lambda>x. x \<noteq> c) (rev s)))
      else - 1)"

definition py_slice :: "string \<Rightarrow> int \<Rightarrow> int \<Rightarrow> string" where
  "py_slice s a b =
     (let n = int (length s);
          a' = (if a < 0 then max 0 (n + a) else min a n);
          b' = (if b < 0 then max 0 (n + b) else min b n)
      in take (nat (b' - a')) (drop (nat a') s))"

text \<open>
  The validation \<open>PersonaProfile(**obj)\<close> of a dict of loaded JSON values: a \<open>str\<close> field
  takes a string only, an optional one also \<open>None\<close> or no entry, a \<open>List[str]\<close> field a
  list of strings or no entry; \<open>target_lang\<close> must match \<open>^(en|id)$\<close>; other keys are
  ignored. The error names the first field that fails, in the order of the class.
\<close>

definition valid_lang :: "string \<Rightarrow> bool" where
  "valid_lang l \<longleftrightarrow> l = ''en'' \<or> l = ''id''"

definition req_str :: "(string \<times> jval) list \<Rightarrow> string \<Rightarrow> error + string" where
  "req_str kvs f = (case map_of kvs f of Some (JStr s) \<Rightarrow> Inr s | _ \<Rightarrow> Inl (ValidationError f))"

definition opt_str :: "(string \<times> jval) list \<Rightarrow> string \<Rightarrow> error + string option" where
  "opt_str kvs f =
     (case map_of kvs f of
        None \<Rightarrow> Inr None
      | Some JNull \<Rightarrow> Inr None
      | Some (JStr s) \<Rightarrow> Inr (Some s)
      | _ \<Rightarrow> Inl (ValidationError f))"

fun jstr_of :: "jval \<Rightarrow> string option" where
  "jstr_of (JStr s) = Some s"
| "jstr_of v = None"

definition str_list :: "(string \<times> jval) list \<Rightarrow> string \<Rightarrow> error + string list" where
  "str_list kvs f =
     (case map_of kvs f of
        None \<Rightarrow> Inr []
      | Some (JArr xs) \<Rightarrow>
          if list_all (\<lambda>v. jstr_of v \<noteq> None) xs then Inr (List.map_filter jstr_of xs)
          else Inl (ValidationError f)
      | _ \<Rightarrow> Inl (ValidationError f))"

definition bind_err :: "error + 'a \<Rightarrow> ('a \<Rightarrow> error + 'b) \<Rightarrow> error + 'b" where
  "bind_err r f = (case r of Inl e \<Rightarrow> Inl e | Inr v \<Rightarrow> f v)"

definition validate_profile :: "(string \<times> jval) list \<Rightarrow> error + persona_profile" where
  "validate_profile kvs =
     bind_err (req_str kvs ''character_id'') (\<lambda>cid.
     bind_err (req_str kvs ''target_lang'') (\<lambda>lang.
     if \<not> valid_lang lang then Inl (ValidationError ''target_lang'') else
     bind_err (req_str kvs ''tone'') (\<lambda>tn.
     bind_err (str_list kvs ''quirks'') (\<lambda>qs.
     bind_err (opt_str kvs ''pronouns'') (\<lambda>pr.
     bind_err (opt_str kvs ''formality'') (\<lambda>fo.
     bind_err (opt_str kvs ''punctuation_habits'') (\<lambda>pu.
     bind_err (str_list kvs ''lexical_preferences'') (\<lambda>lp.
     bind_err (str_list kvs ''style_rules_en'') (\<lambda>se.
     bind_err (str_list kvs ''style_rules_id'') (\<lambda>si.
     bind_err (opt_str kvs ''notes'') (\<lambda>no.
       Inr \<lparr>character_id = cid, target_lang = lang, tone = tn, quirks = qs, pronouns = pr,
            formality = fo, punctuation_habits = pu, lexical_preferences = lp,
            style_rules_en = se, style_rules_id = si, profile_notes = no\<rparr>)))))))))))"

text \<open>
  The \<open>try\<close> block on the returned text. \<open>json.loads\<close> is the standard library's and is a
  parameter here: \<open>loads t\<close> is the value it returns for the text \<open>t\<close>, or \<open>None\<close> when it
  raises. A value that is not a dict cannot take the two assignments.
\<close>

definition parse_response ::
  "(string \<Rightarrow> jval option) \<Rightarrow> string \<Rightarrow> string \<Rightarrow> string \<Rightarrow> error + persona_profile" where
  "parse_response loads raw cid lang =
     (let start = py_find (CHR ''{'') raw;
          stop = py_rfind (CHR ''}'') raw + 1
      in case loads (py_slice raw start stop) of
           None \<Rightarrow> Inl JSONDecodeError
         | Some (JObj kvs) \<Rightarrow>
             validate_profile
               (dict_set ''target_lang'' (JStr lang) (dict_set ''character_id'' (JStr cid) kvs))
         | Some v \<Rightarrow> Inl TypeError)"

text \<open>The \<open>except\<close> block: the minimal profile, validated like any other.\<close>

definition fallback_profile :: "string \<Rightarrow> string \<Rightarrow> error + persona_profile" where
  "fallback_profile cid lang =
     validate_profile
       [(''character_id'', JStr cid), (''target_lang'', JStr lang),
        (''tone'', JStr ''neutral''), (''quirks'', JArr [])]"

text \<open>
  \<open>df.groupby(char_col)\<close>: the keys are the values of the column that are not missing,
  each once, sorted; a group holds the rows with its key, in the order of the table.
\<close>

definition group_keys :: "dataframe \<Rightarrow> string \<Rightarrow> string list" where
  "group_keys df char_col =
     sort (remdups (List.map_filter (\<lambda>r. cell_at r (col_index (columns df) char_col)) (rows df)))"

definition group_rows :: "dataframe \<Rightarrow> string \<Rightarrow> string \<Rightarrow> cell list list" where
  "group_rows df char_col k =
     filter (\<lambda>r. cell_at r (col_index (columns df) char_col) = Some k) (rows df)"

text \<open>\<open>g[tgt_col].dropna().astype(str).tolist()[:max_lines_per_char]\<close>.\<close>

definition tgt_lines :: "dataframe \<Rightarrow> string \<Rightarrow> string \<Rightarrow> int \<Rightarrow> string \<Rightarrow> string list" where
  "tgt_lines df char_col tgt_col max_lines k =
     py_take max_lines
       (List.map_filter (\<lambda>r. cell_at r (col_index (columns df) tgt_col)) (group_rows df char_col k))"

definition learn_system :: string where
  "learn_system =
     ''You are a localization style analyst. '' @
     ''Given several translated dialog lines from ONE game character, infer their speaking style.''"

text \<open>The user prompt; \<open>schema\<close> is the text \<open>PersonaProfile.schema_json(indent=2)\<close>, which
  pydantic writes.\<close>

definition learn_user :: "string \<Rightarrow> int \<Rightarrow> string \<Rightarrow> string \<Rightarrow> string list \<Rightarrow> string" where
  "learn_user schema max_lines lang cid lines =
     (let sample_block = py_join newline (map (\<lambda>line. ''- '' @ line) lines)
      in py_strip (py_join newline
           [[],
            ''You will be given up to '' @ str_int max_lines @ '' lines **already translated** to ''
              @ (if lang = ''en'' then ''English'' else ''Indonesian'') @ ''.'',
            ''From these, infer a concise persona profile capturing tone, quirks, formality, pronoun choices, punctuation habits, and recurring lexical preferences.'',
            [],
            ''Return STRICT JSON that validates this Pydantic model:'',
            [],
            schema,
            [],
            ''Character ID: '' @ cid,
            ''Target language code: '' @ lang,
            [],
            ''Translated sample lines:'',
            sample_block,
            [],
            ''Important:'',
            ''- Base your analysis ONLY on these translated lines.'',
            ''- Keep it short and concrete; no generic fluff.'',
            ''- If a field is unknown, leave it empty or minimal.'',
            ''- Output ONLY the JSON object, nothing else.'',
            []]))"

text \<open>
  The loop over the groups. The result is the prompts sent to the gateway, in order, and
  what the call ends with: the dict \<open>results\<close>, or the exception that left the loop. The
  gateway is called outside the \<open>try\<close>.
\<close>

fun learn_groups ::
  "(string \<Rightarrow> jval option) \<Rightarrow> string \<Rightarrow> gateway \<Rightarrow> dataframe \<Rightarrow> string \<Rightarrow> string \<Rightarrow> string \<Rightarrow> int \<Rightarrow>
   string list \<Rightarrow> (string \<times> string) list \<Rightarrow> (string \<times> persona_profile) list \<Rightarrow>
   (string \<times> string) list \<times> (error + (string \<times> persona_profile) list)" where
  "learn_groups loads schema gw df char_col tgt_col lang max_lines [] asked results =
     (asked, Inr results)"
| "learn_groups loads schema gw df char_col tgt_col lang max_lines (k # ks) asked results =
     (let lines = tgt_lines df char_col tgt_col max_lines k
      in if lines = [] then
           learn_groups loads schema gw df char_col tgt_col lang max_lines ks asked results
         else
           let user = learn_user schema max_lines lang k lines;
               asked' = asked @ [(learn_system, user)]
           in case gw (length asked) learn_system user of
                Inl msg \<Rightarrow> (asked', Inl (GatewayError msg))
              | Inr raw \<Rightarrow>
                  (case (case parse_response loads raw k lang of
                           Inr p \<Rightarrow> Inr p
                         | Inl e \<Rightarrow> fallback_profile k lang) of
                     Inl e \<Rightarrow> (asked', Inl e)
                   | Inr p \<Rightarrow>
                       learn_groups loads schema gw df char_col tgt_col lang max_lines ks asked'
                         (dict_set k p results)))"

text \<open>\<open>if max_chars: df = df.head(max_chars)\<close>.\<close>

definition limit_rows :: "int option \<Rightarrow> dataframe \<Rightarrow> dataframe" where
  "limit_rows max_chars df =
     (case max_chars of
        None \<Rightarrow> df
      | Some m \<Rightarrow> if m = 0 then df else df\<lparr>rows := py_take m (rows df)\<rparr>)"

text \<open>
  \<open>learn_personas_from_csv\<close>, from the table \<open>pd.read_csv\<close> returns on. The three column
  names are checked as a set, so the order of the missing ones in the error is not fixed.
\<close>

definition learn_personas_from_csv ::
  "(string \<Rightarrow> jval option) \<Rightarrow> string \<Rightarrow> gateway \<Rightarrow> dataframe \<Rightarrow> string \<Rightarrow> string \<Rightarrow> string \<Rightarrow>
   string \<Rightarrow> int \<Rightarrow> int option \<Rightarrow>
   (string \<times> string) list \<times> (error + (string \<times> persona_profile) list)" where
  "learn_personas_from_csv loads schema gw df char_col src_col tgt_col lang max_lines max_chars =
     (let missing = filter (\<lambda>c. c \<notin> set (columns df)) (remdups [char_col, src_col, tgt_col])
      in if missing \<noteq> [] then ([], Inl (MissingColumns missing))
         else
           let df1 = limit_rows max_chars df
           in learn_groups loads schema gw df1 char_col tgt_col lang max_lines
                (group_keys df1 char_col) [] [])"


definition usable_keys :: "dataframe \<Rightarrow> string \<Rightarrow> string \<Rightarrow> int \<Rightarrow> string list" where
  "usable_keys df char_col tgt_col max_lines =
     filter (\<lambda>k. tgt_lines df char_col tgt_col max_lines k \<noteq> []) (group_keys df char_col)"

text \<open>
  The fallback minimal profile (tone neutral, no quirks, nothing else), and the profile the
  loop stores for a group whose gateway call returned \<open>raw\<close> when the target language is
  one the schema accepts.
\<close>

definition minimal_profile :: "string \<Rightarrow> string \<Rightarrow> persona_profile" where
  "minimal_profile cid lang =
     \<lparr>character_id = cid, target_lang = lang, tone = ''neutral'', quirks = [], pronouns = None,
      formality = None, punctuation_habits = None, lexical_preferences = [],
      style_rules_en = [], style_rules_id = [], profile_notes = None\<rparr>"

definition stored_profile ::
  "(string \<Rightarrow> jval option) \<Rightarrow> string \<Rightarrow> string \<Rightarrow> string \<Rightarrow> persona_profile" where
  "stored_profile loads raw cid lang =
     (case parse_response loads raw cid lang of Inr p \<Rightarrow> p | Inl e \<Rightarrow> minimal_profile cid lang)"

text \<open>The pair of prompts the loop sends for the group of \<open>k\<close>.\<close>

definition learn_prompt ::
  "string \<Rightarrow> dataframe \<Rightarrow> string \<Rightarrow> string \<Rightarrow> string \<Rightarrow> int \<Rightarrow> string \<Rightarrow> string \<times> string" where
  "learn_prompt schema df char_col tgt_col lang max_lines k =
     (learn_system, learn_user schema max_lines lang k (tgt_lines df char_col tgt_col max_lines k))"

text \<open>A small table of three characters for the worked examples below.\<close>

definition sample_table :: dataframe where
  "sample_table =
     \<lparr>columns = [''character_id'', ''zh_cn'', ''tgt''],
      rows = [[Some ''paimon'', Some ''a'', Some ''Halo!''],
              [Some ''amber'', Some ''b'', None],
              [Some ''paimon'', Some ''c'', None],
              [Some ''paimon'', Some ''d'', Some ''Ayo''],
              [Some ''klee'', Some ''e'', Some ''Bom''],
              [Some ''paimon'', Some ''f'', Some ''Tiga'']]\<rparr>"

section \<open>Persona Store (agents/persona\_learner.py)\<close>

text \<open>
  \<open>save_personas\<close> writes \<open>json.dump(profiles, f, ensure_ascii=False, indent=2)\<close>,
  \<open>load_personas\<close> returns \<open>json.load(f)\<close>. Both are the standard library's; they are modelled
  here after CPython's \<open>json.encoder\<close> and \<open>json.decoder\<close>, for text over code points below
  256 and for integers as the only numbers.
\<close>

definition dquote :: char where
  "dquote = CHR 0x22"

definition backslash :: char where
  "backslash = CHR 0x5C"

definition hexdigit :: "nat \<Rightarrow> char" where
  "hexdigit d = ''0123456789abcdef'' ! d"

text \<open>\<open>encode_basestring\<close>: the quote, the backslash and the control characters are
  escaped, every other character is written as it is.\<close>

definition esc_char :: "char \<Rightarrow> string" where
  "esc_char c =
     (if c = dquote then [backslash, dquote]
      else if c = backslash then [backslash, backslash]
      else if c = CHR 0x0A then [backslash, CHR ''n'']
      else if c = CHR 0x0D then [backslash, CHR ''r'']
      else if c = CHR 0x09 then [backslash, CHR ''t'']
      else if c = CHR 0x08 then [backslash, CHR ''b'']
      else if c = CHR 0x0C then [backslash, CHR ''f'']
      else if (of_char c :: nat) < 32
        then [backslash, CHR ''u'', CHR ''0'', CHR ''0'',
              hexdigit (of_char c div 16), hexdigit (of_char c mod 16)]
      else [c])"

definition encode_string :: "string \<Rightarrow> string" where
  "encode_string s = dquote # concat (map esc_char s) @ [dquote]"

text \<open>A line break and the indentation of a nesting level, two spaces a level.\<close>

definition newline_indent :: "nat \<Rightarrow> string" where
  "newline_indent level = CHR 0x0A # replicate (2 * level) (CHR 0x20)"

text \<open>The encoder at a nesting level: an empty list is \<open>[]\<close>, an empty dict \<open>{}\<close>, any
  other has one item a line, the items separated by a comma, the key and the value by a
  colon and a space.\<close>

fun encode :: "nat \<Rightarrow> jval \<Rightarrow> string" where
  "encode level JNull = ''null''"
| "encode level (JBool b) = (if b then ''true'' else ''false'')"
| "encode level (JNum n) = str_int n"
| "encode level (JStr s) = encode_string s"
| "encode level (JArr xs) =
     (if xs = [] then ''[]''
      else ''['' @ newline_indent (Suc level) @
           py_join ('','' @ newline_indent (Suc level)) (map (encode (Suc level)) xs) @
           newline_indent level @ '']'')"
| "encode level (JObj kvs) =
     (if kvs = [] then ''{}''
      else ''{'' @ newline_indent (Suc level) @
           py_join ('','' @ newline_indent (Suc level))
             (map (\<lambda>kv. encode_string (fst kv) @ '': '' @ encode (Suc level) (snd kv)) kvs) @
           newline_indent level @ ''}'')"




















text \<open>
  The values the round trip is stated for: no number, and no key twice in a dict.
\<close>

fun storable :: "jval \<Rightarrow> bool" where
  "storable JNull = True"
| "storable (JBool b) = True"
| "storable (JNum n) = False"
| "storable (JStr s) = True"
| "storable (JArr xs) = list_all storable xs"
| "storable (JObj kvs) = (distinct (map fst kvs) \<and> list_all (\<lambda>kv. storable (snd kv)) kvs)"




section \<open>Properties of the Lexical Normalizer\<close>











lemma join_pieces_error: "join_pieces a = Inl e \<Longrightarrow> e = TypeError"
  by (induction a arbitrary: e rule: join_pieces.induct) (auto split: sum.splits)








section \<open>Properties of the Translation Filler\<close>

lemma run_rows_snoc:
  "run_rows step (xs @ [x]) st =
     (case run_rows step xs st of Inl e \<Rightarrow> Inl e | Inr st' \<Rightarrow> step x st')"
  by (induction xs arbitrary: st) (auto split: sum.splits)

lemma run_rows_upt_inv:
  assumes "run_rows step [0..<n] st0 = Inr st"
    and "I 0 st0"
    and "\<And>k s s'. k < n \<Longrightarrow> I k s \<Longrightarrow> step k s = Inr s' \<Longrightarrow> I (Suc k) s'"
  shows "I n st"
  using assms
proof (induction n arbitrary: st)
  case 0
  then show ?case by simp
next
  case (Suc n)
  from Suc.prems(1) obtain s where s: "run_rows step [0..<n] st0 = Inr s" and st: "step n s = Inr st"
    by (auto simp: run_rows_snoc split: sum.splits)
  have "I n s"
    by (rule Suc.IH [OF s Suc.prems(2)]) (use Suc.prems(3) in auto)
  with st Suc.prems(3) show ?case by blast
qed

lemma run_rows_total:
  assumes "\<And>k s. \<exists>s'. step k s = Inr s'"
  shows "\<exists>st. run_rows step xs st0 = Inr st"
proof (induction xs arbitrary: st0)
  case Nil
  then show ?case by simp
next
  case (Cons x xs)
  from assms obtain s' where "step x st0 = Inr s'" by blast
  with Cons show ?case by simp
qed

lemma cli_row_skip:
  "\<not> selected (table st) cn_col id_col overwrite i \<Longrightarrow>
   cli_row gw persona custom_map cn_col id_col overwrite kbbi n i st =
     Inr (st\<lparr>processed := Suc (processed st)\<rparr>)"
  by (auto simp: cli_row_def selected_def Let_def)

lemma cli_row_call:
  "selected (table st) cn_col id_col overwrite i \<Longrightarrow>
   cli_row gw persona custom_map cn_col id_col overwrite kbbi n i st =
     (case gw (length (sent st)) build_system
             (build_user (cell_text (get_cell (table st) i cn_col)) persona ''id'') of
        Inl e \<Rightarrow>
          Inr (st\<lparr>processed := Suc (processed st),
                  sent := sent st @ [(build_system,
                     build_user (cell_text (get_cell (table st) i cn_col)) persona ''id'')],
                  printed := printed st @
                     [''['' @ str_nat (Suc (processed st)) @ ''/'' @ str_nat n @ ''] ERROR: '' @ e]\<rparr>)
      | Inr out \<Rightarrow>
          (case (if kbbi then normalize_indonesian out custom_map else Inr out) of
             Inl e \<Rightarrow> Inl e
           | Inr out' \<Rightarrow>
               Inr (st\<lparr>processed := Suc (processed st),
                       sent := sent st @ [(build_system,
                          build_user (cell_text (get_cell (table st) i cn_col)) persona ''id'')],
                       table := set_cell (table st) i id_col out',
                       filled := Suc (filled st)\<rparr>)))"
  by (auto simp: cli_row_def selected_def Let_def split: sum.splits)


lemma list_update_cell_at: "r[j := cell_at r j] = r"
  by (simp add: cell_at_def list_update_beyond)

lemma get_cell_cong:
  "columns a = columns b \<Longrightarrow> rows a ! i = rows b ! i \<Longrightarrow> get_cell a i c = get_cell b i c"
  by (simp add: get_cell_def)

lemma selected_cong:
  "columns a = columns b \<Longrightarrow> rows a ! i = rows b ! i \<Longrightarrow>
   selected a cn tg ov i = selected b cn tg ov i"
  by (simp add: selected_def get_cell_def)

lemma call_no_Suc:
  "call_no df cn tg ov (Suc k) =
     (if selected df cn tg ov k then Suc (call_no df cn tg ov k) else call_no df cn tg ov k)"
  by (simp add: call_no_def)

lemma cli_run_rows:
  assumes run: "run_rows (cli_row gw persona cm cn tg ov kbbi n) [0..<n]
                  \<lparr>table = df, sent = [], filled = 0, processed = 0, printed = []\<rparr> = Inr st"
    and n: "n = length (rows df)"
  shows "columns (table st) = columns df
       \<and> rows (table st) =
           map (\<lambda>i. (rows df ! i)[col_index (columns df) tg :=
                        cli_outcome gw persona cm cn tg ov kbbi df i]) [0..<n]
       \<and> sent st = map (\<lambda>i. (build_system, build_user (cell_text (get_cell df i cn)) persona ''id''))
                     (filter (selected df cn tg ov) [0..<n])
       \<and> processed st = n
       \<and> printed st = concat (map (cli_report gw persona cn tg ov df) [0..<n])
       \<and> (\<forall>i<n. selected df cn tg ov i \<longrightarrow>
            (\<forall>out. gw (call_no df cn tg ov i) build_system
                     (build_user (cell_text (get_cell df i cn)) persona ''id'') = Inr out \<longrightarrow>
                   (\<exists>out'. (if kbbi then normalize_indonesian out cm else Inr out) = Inr out')))"
proof -
  let ?tj = "col_index (columns df) tg"
  let ?out = "cli_outcome gw persona cm cn tg ov kbbi df"
  let ?prm = "\<lambda>i. (build_system, build_user (cell_text (get_cell df i cn)) persona ''id'')"
  let ?sel = "selected df cn tg ov"
  let ?rep = "cli_report gw persona cn tg ov df"
  define I where "I = (\<lambda>k (s::fill_state).
      columns (table s) = columns df
    \<and> length (rows (table s)) = n
    \<and> (\<forall>i<n. rows (table s) ! i = (if i < k then (rows df ! i)[?tj := ?out i] else rows df ! i))
    \<and> sent s = map ?prm (filter ?sel [0..<k])
    \<and> processed s = k
    \<and> printed s = concat (map ?rep [0..<k])
    \<and> (\<forall>i<k. selected df cn tg ov i \<longrightarrow>
            (\<forall>out. gw (call_no df cn tg ov i) build_system
                     (build_user (cell_text (get_cell df i cn)) persona ''id'') = Inr out \<longrightarrow>
                   (\<exists>out'. (if kbbi then normalize_indonesian out cm else Inr out) = Inr out'))))"
  have I0: "I 0 \<lparr>table = df, sent = [], filled = 0, processed = 0, printed = []\<rparr>"
    by (simp add: I_def n)
  have step: "I (Suc k) s'"
    if k: "k < n" and Ik: "I k s"
      and r: "cli_row gw persona cm cn tg ov kbbi n k s = Inr s'" for k s s'
  proof -
    from Ik have cols: "columns (table s) = columns df"
      and len: "length (rows (table s)) = n"
      and rws: "\<forall>i<n. rows (table s) ! i = (if i < k then (rows df ! i)[?tj := ?out i] else rows df ! i)"
      and snt: "sent s = map ?prm (filter ?sel [0..<k])"
      and prc: "processed s = k"
      and prt: "printed s = concat (map ?rep [0..<k])"
      and nok: "(\<forall>i<k. selected df cn tg ov i \<longrightarrow>
            (\<forall>out. gw (call_no df cn tg ov i) build_system
                     (build_user (cell_text (get_cell df i cn)) persona ''id'') = Inr out \<longrightarrow>
                   (\<exists>out'. (if kbbi then normalize_indonesian out cm else Inr out) = Inr out')))"
      by (simp_all add: I_def)
    from rws k have rk: "rows (table s) ! k = rows df ! k" by simp
    have gc: "get_cell (table s) k c = get_cell df k c" for c
      by (rule get_cell_cong [OF cols rk])
    have sel: "selected (table s) cn tg ov k = ?sel k"
      by (rule selected_cong [OF cols rk])
    have cno: "length (sent s) = call_no df cn tg ov k"
      by (simp add: snt call_no_def)
    show ?thesis
    proof (cases "?sel k")
      case False
      with r sel have s': "s' = s\<lparr>processed := Suc (processed s)\<rparr>"
        by (simp add: cli_row_skip)
      from False have o: "?out k = cell_at (rows df ! k) ?tj"
        by (simp add: cli_outcome_def get_cell_def)
      from False have rp: "?rep k = []" by (simp add: cli_report_def)
      show ?thesis
        unfolding I_def s' using cols len rws snt prc prt nok False o rp
        by (auto simp: list_update_cell_at less_Suc_eq)
    next
      case True
      note r' = r [unfolded cli_row_call [OF True [folded sel]] gc cno]
      show ?thesis
      proof (cases "gw (call_no df cn tg ov k) build_system
                      (build_user (cell_text (get_cell df k cn)) persona ''id'')")
        case (Inl e)
        with r' have s': "s' = s\<lparr>processed := Suc (processed s),
                  sent := sent s @ [?prm k],
                  printed := printed s @
                     [''['' @ str_nat (Suc (processed s)) @ ''/'' @ str_nat n @ ''] ERROR: '' @ e]\<rparr>"
          by simp
        from True Inl have o: "?out k = cell_at (rows df ! k) ?tj"
          by (simp add: cli_outcome_def get_cell_def)
        from True Inl have rp: "?rep k = [''['' @ str_nat (Suc k) @ ''/'' @ str_nat n @ ''] ERROR: '' @ e]"
          by (simp add: cli_report_def n)
        show ?thesis
          unfolding I_def s' using cols len rws snt prc prt nok True o rp Inl
          by (auto simp: list_update_cell_at less_Suc_eq)
      next
        case (Inr out)
        with r' obtain out' where
          nm: "(if kbbi then normalize_indonesian out cm else Inr out) = Inr out'"
          and s': "s' = s\<lparr>processed := Suc (processed s),
                       sent := sent s @ [?prm k],
                       table := set_cell (table s) k tg out',
                       filled := Suc (filled s)\<rparr>"
          by (auto split: sum.splits)
        from True Inr nm have o: "?out k = Some out'"
          by (simp add: cli_outcome_def)
        from True Inr have rp: "?rep k = []" by (simp add: cli_report_def)
        have t: "rows (set_cell (table s) k tg out') = (rows (table s))[k := (rows df ! k)[?tj := Some out']]"
          "columns (set_cell (table s) k tg out') = columns df"
          by (simp_all add: set_cell_def cols rk)
        show ?thesis
          unfolding I_def s' using cols len rws snt prc prt nok True o rp t k Inr nm
          by (auto simp: less_Suc_eq nth_list_update)
      qed
    qed
  qed
  have "I n st"
    by (rule run_rows_upt_inv [where I = I, OF run I0 step])
  then show ?thesis
    unfolding I_def by (auto intro!: nth_equalityI)
qed

lemma web_row_skip:
  "\<not> selected (table st) cn_col tgt_col overwrite i \<Longrightarrow>
   web_row gw persona no_training use_kbbi overwrite trans_lang custom_map cn_col tgt_col i st =
     Inr (st\<lparr>processed := Suc (processed st)\<rparr>)"
  by (auto simp: web_row_def selected_def Let_def)

lemma web_row_call:
  "selected (table st) cn_col tgt_col overwrite i \<Longrightarrow>
   web_row gw persona no_training use_kbbi overwrite trans_lang custom_map cn_col tgt_col i st =
     (case gw (length (sent st)) build_system
             (web_build_user (cell_text (get_cell (table st) i cn_col))
                (if \<not> no_training then persona else None) trans_lang) of
        Inr out \<Rightarrow>
          Inr (st\<lparr>processed := Suc (processed st),
                  sent := sent st @ [(build_system,
                     web_build_user (cell_text (get_cell (table st) i cn_col))
                       (if \<not> no_training then persona else None) trans_lang)],
                  table := set_cell (table st) i tgt_col
                     (if use_kbbi \<and> trans_lang = ''id''
                      then (case normalize_indonesian out custom_map of Inl e \<Rightarrow> out | Inr r \<Rightarrow> r)
                      else out),
                  filled := Suc (filled st)\<rparr>)
      | Inl e \<Rightarrow>
          Inr (st\<lparr>processed := Suc (processed st),
                  sent := sent st @ [(build_system,
                     web_build_user (cell_text (get_cell (table st) i cn_col))
                       (if \<not> no_training then persona else None) trans_lang)],
                  table := set_cell (table st) i tgt_col (cell_text (get_cell (table st) i tgt_col)),
                  printed := printed st @ [''Row '' @ str_nat (i + 1) @ '': ERROR '' @ e]\<rparr>))"
  by (auto simp: web_row_def selected_def Let_def split: sum.splits)

lemma web_row_total:
  "\<exists>s'. web_row gw persona no_training use_kbbi overwrite trans_lang custom_map cn_col tgt_col i st = Inr s'"
  by (cases "selected (table st) cn_col tgt_col overwrite i")
     (simp_all add: web_row_skip web_row_call split: sum.splits)

lemma web_run_rows:
  assumes n: "n = length (rows df)"
  shows "\<exists>st. run_rows (web_row gw persona nt uk ov lang cm cn tg) [0..<n]
                  \<lparr>table = df, sent = [], filled = 0, processed = 0, printed = []\<rparr> = Inr st
       \<and> columns (table st) = columns df
       \<and> rows (table st) =
           map (\<lambda>i. (rows df ! i)[col_index (columns df) tg :=
                        web_outcome gw persona nt uk ov lang cm cn tg df i]) [0..<n]
       \<and> sent st = map (\<lambda>i. (build_system,
                              web_build_user (cell_text (get_cell df i cn))
                                (if \<not> nt then persona else None) lang))
                     (filter (selected df cn tg ov) [0..<n])
       \<and> processed st = n
       \<and> printed st = concat (map (web_report gw persona nt ov lang cn tg df) [0..<n])"
proof -
  let ?tj = "col_index (columns df) tg"
  let ?out = "web_outcome gw persona nt uk ov lang cm cn tg df"
  let ?prm = "\<lambda>i. (build_system, web_build_user (cell_text (get_cell df i cn))
                                (if \<not> nt then persona else None) lang)"
  let ?sel = "selected df cn tg ov"
  let ?rep = "web_report gw persona nt ov lang cn tg df"
  let ?s0 = "\<lparr>table = df, sent = [], filled = 0, processed = 0, printed = []\<rparr>"
  obtain st where run: "run_rows (web_row gw persona nt uk ov lang cm cn tg) [0..<n] ?s0 = Inr st"
    using run_rows_total [of "web_row gw persona nt uk ov lang cm cn tg" "[0..<n]" ?s0]
      web_row_total by blast
  define I where "I = (\<lambda>k (s::fill_state).
      columns (table s) = columns df
    \<and> length (rows (table s)) = n
    \<and> (\<forall>i<n. rows (table s) ! i = (if i < k then (rows df ! i)[?tj := ?out i] else rows df ! i))
    \<and> sent s = map ?prm (filter ?sel [0..<k])
    \<and> processed s = k
    \<and> printed s = concat (map ?rep [0..<k]))"
  have I0: "I 0 ?s0"
    by (simp add: I_def n)
  have step: "I (Suc k) s'"
    if k: "k < n" and Ik: "I k s"
      and r: "web_row gw persona nt uk ov lang cm cn tg k s = Inr s'" for k s s'
  proof -
    from Ik have cols: "columns (table s) = columns df"
      and len: "length (rows (table s)) = n"
      and rws: "\<forall>i<n. rows (table s) ! i = (if i < k then (rows df ! i)[?tj := ?out i] else rows df ! i)"
      and snt: "sent s = map ?prm (filter ?sel [0..<k])"
      and prc: "processed s = k"
      and prt: "printed s = concat (map ?rep [0..<k])"
      by (simp_all add: I_def)
    from rws k have rk: "rows (table s) ! k = rows df ! k" by simp
    have gc: "get_cell (table s) k c = get_cell df k c" for c
      by (rule get_cell_cong [OF cols rk])
    have sel: "selected (table s) cn tg ov k = ?sel k"
      by (rule selected_cong [OF cols rk])
    have cno: "length (sent s) = call_no df cn tg ov k"
      by (simp add: snt call_no_def)
    show ?thesis
    proof (cases "?sel k")
      case False
      with r sel have s': "s' = s\<lparr>processed := Suc (processed s)\<rparr>"
        by (simp add: web_row_skip)
      from False have o: "?out k = cell_at (rows df ! k) ?tj"
        by (simp add: web_outcome_def get_cell_def)
      from False have rp: "?rep k = []" by (simp add: web_report_def)
      show ?thesis
        unfolding I_def s' using cols len rws snt prc prt False o rp
        by (auto simp: list_update_cell_at less_Suc_eq)
    next
      case True
      note r' = r [unfolded web_row_call [OF True [folded sel]] gc cno]
      have t: "rows (set_cell (table s) k tg v) = (rows (table s))[k := (rows df ! k)[?tj := Some v]]"
        "columns (set_cell (table s) k tg v) = columns df" for v
        by (simp_all add: set_cell_def cols rk)
      show ?thesis
      proof (cases "gw (call_no df cn tg ov k) build_system
                      (web_build_user (cell_text (get_cell df k cn))
                         (if \<not> nt then persona else None) lang)")
        case (Inl e)
        with r' have s': "s' = s\<lparr>processed := Suc (processed s),
                  sent := sent s @ [?prm k],
                  table := set_cell (table s) k tg (cell_text (get_cell df k tg)),
                  printed := printed s @ [''Row '' @ str_nat (k + 1) @ '': ERROR '' @ e]\<rparr>"
          by simp
        from True Inl have o: "?out k = Some (cell_text (get_cell df k tg))"
          by (simp add: web_outcome_def)
        from True Inl have rp: "?rep k = [''Row '' @ str_nat (k + 1) @ '': ERROR '' @ e]"
          by (simp add: web_report_def)
        show ?thesis
          unfolding I_def s' using cols len rws snt prc prt True o rp t k
          by (auto simp: less_Suc_eq nth_list_update)
      next
        case (Inr out)
        with r' have s': "s' = s\<lparr>processed := Suc (processed s),
                       sent := sent s @ [?prm k],
                       table := set_cell (table s) k tg
                         (if uk \<and> lang = ''id''
                          then (case normalize_indonesian out cm of Inl e \<Rightarrow> out | Inr r \<Rightarrow> r)
                          else out),
                       filled := Suc (filled s)\<rparr>"
          by simp
        from True Inr have o: "?out k = Some (if uk \<and> lang = ''id''
                          then (case normalize_indonesian out cm of Inl e \<Rightarrow> out | Inr r \<Rightarrow> r)
                          else out)"
          by (simp add: web_outcome_def)
        from True Inr have rp: "?rep k = []" by (simp add: web_report_def)
        show ?thesis
          unfolding I_def s' using cols len rws snt prc prt True o rp t k
          by (auto simp: less_Suc_eq nth_list_update)
      qed
    qed
  qed
  have "I n st"
    by (rule run_rows_upt_inv [where I = I, OF run I0 step])
  then have "columns (table st) = columns df
       \<and> rows (table st) = map (\<lambda>i. (rows df ! i)[?tj := ?out i]) [0..<n]
       \<and> sent st = map ?prm (filter ?sel [0..<n])
       \<and> processed st = n
       \<and> printed st = concat (map ?rep [0..<n])"
    unfolding I_def by (auto intro!: nth_equalityI)
  with run show ?thesis by blast
qed

lemma col_index_less: "c \<in> set cols \<Longrightarrow> col_index cols c < length cols"
  by (induction cols) (auto simp: col_index_def)

lemma ensure_column_present: "c \<in> set (columns df) \<Longrightarrow> ensure_column df c = df"
  by (simp add: ensure_column_def)

lemma wf_row: "wf_df df \<Longrightarrow> i < length (rows df) \<Longrightarrow> length (rows df ! i) = length (columns df)"
  by (simp add: wf_df_def list_all_length)

lemma cell_at_update: "j < length r \<Longrightarrow> cell_at (r[j := v]) j = v"
  by (simp add: cell_at_def)

lemma repl_default_str: "\<exists>s. repl DEFAULT_KBBI_MAP w = Inr (JStr s)"
  by (simp add: repl_def DEFAULT_KBBI_MAP_def Let_def)

lemma sub_scan_default:
  "\<exists>vs. sub_scan (repl DEFAULT_KBBI_MAP) p t = Inr vs \<and> (\<exists>r. join_pieces vs = Inr r)"
proof (induction "repl DEFAULT_KBBI_MAP" p t rule: sub_scan.induct)
  case (1 p)
  then show ?case by simp
next
  case (2 p x xs)
  show ?case
  proof (cases "match_here p x xs")
    case None
    with 2(1) show ?thesis by auto
  next
    case (Some j)
    obtain s where s: "repl DEFAULT_KBBI_MAP (x # take j xs) = Inr (JStr s)"
      using repl_default_str by blast
    from 2(2) [OF Some s] Some s show ?thesis by auto
  qed
qed

lemma normalize_default_total: "\<exists>r. normalize_indonesian t None = Inr r"
  using sub_scan_default [of None t]
  by (auto simp: normalize_indonesian_def effective_map_def re_sub_def)


lemma cli_row_total:
  assumes "kbbi \<longrightarrow> cm = None"
  shows "\<exists>s'. cli_row gw persona cm cn tg ov kbbi n i st = Inr s'"
proof (cases "selected (table st) cn tg ov i")
  case False
  then show ?thesis by (simp add: cli_row_skip)
next
  case True
  show ?thesis
  proof (cases "gw (length (sent st)) build_system
                  (build_user (cell_text (get_cell (table st) i cn)) persona ''id'')")
    case (Inl e)
    with True show ?thesis by (simp add: cli_row_call)
  next
    case (Inr out)
    obtain r where "(if kbbi then normalize_indonesian out cm else Inr out) = Inr r"
      using assms normalize_default_total [of out] by (cases kbbi) auto
    with True Inr show ?thesis by (simp add: cli_row_call)
  qed
qed

lemma fill_main_total:
  assumes "kbbi \<longrightarrow> cm = None" and "cn \<in> set (columns df)"
  shows "\<exists>st. fill_main gw persona cm cn tg ov kbbi df = Inr st"
  using assms(2) run_rows_total [of "cli_row gw persona cm cn tg ov kbbi (length (rows (ensure_column df tg)))",
      OF cli_row_total [OF assms(1)]]
  by (simp add: fill_main_def Let_def)

lemma fill_main_run:
  assumes wf: "wf_df df" and cn: "cn \<in> set (columns df)" and tg: "tg \<in> set (columns df)"
    and run: "fill_main gw persona cm cn tg ov kbbi df = Inr st"
  shows "(\<forall>i<length (rows df). get_cell (table st) i tg = cli_outcome gw persona cm cn tg ov kbbi df i)
       \<and> sent st = map (\<lambda>i. (build_system, build_user (cell_text (get_cell df i cn)) persona ''id''))
                     (filter (selected df cn tg ov) [0..<length (rows df)])
       \<and> processed st = length (rows df)
       \<and> printed st = concat (map (cli_report gw persona cn tg ov df) [0..<length (rows df)])
       \<and> (\<forall>i<length (rows df). selected df cn tg ov i \<longrightarrow>
            (\<forall>out. gw (call_no df cn tg ov i) build_system
                     (build_user (cell_text (get_cell df i cn)) persona ''id'') = Inr out \<longrightarrow>
                   (\<exists>out'. (if kbbi then normalize_indonesian out cm else Inr out) = Inr out')))"
proof -
  from run cn tg have r: "run_rows (cli_row gw persona cm cn tg ov kbbi (length (rows df)))
       [0..<length (rows df)]
       \<lparr>table = df, sent = [], filled = 0, processed = 0, printed = []\<rparr> = Inr st"
    by (simp add: fill_main_def Let_def ensure_column_present)
  note c = cli_run_rows [OF r refl]
  have "get_cell (table st) i tg = cli_outcome gw persona cm cn tg ov kbbi df i"
    if "i < length (rows df)" for i
  proof -
    have "col_index (columns df) tg < length (rows df ! i)"
      using wf_row [OF wf that] col_index_less [OF tg] by simp
    with c that show ?thesis
      by (simp add: get_cell_def cell_at_update)
  qed
  with c show ?thesis by blast
qed

lemma web_run_main:
  assumes wf: "wf_df df" and cn: "cn \<in> set (columns df)" and tg: "tg \<in> set (columns df)"
  shows "\<exists>st. web_run gw persona nt uk ov lang cm cn tg df = Inr st
       \<and> (\<forall>i<length (rows df). get_cell (table st) i tg = web_outcome gw persona nt uk ov lang cm cn tg df i)
       \<and> sent st = map (\<lambda>i. (build_system,
                              web_build_user (cell_text (get_cell df i cn))
                                (if \<not> nt then persona else None) lang))
                     (filter (selected df cn tg ov) [0..<length (rows df)])
       \<and> processed st = length (rows df)
       \<and> printed st = concat (map (web_report gw persona nt ov lang cn tg df) [0..<length (rows df)])"
proof -
  from web_run_rows [OF refl, of gw persona nt uk ov lang cm cn tg df]
  obtain st where r: "run_rows (web_row gw persona nt uk ov lang cm cn tg) [0..<length (rows df)]
                  \<lparr>table = df, sent = [], filled = 0, processed = 0, printed = []\<rparr> = Inr st"
    and c: "columns (table st) = columns df"
       "rows (table st) =
           map (\<lambda>i. (rows df ! i)[col_index (columns df) tg :=
                        web_outcome gw persona nt uk ov lang cm cn tg df i]) [0..<length (rows df)]"
       "sent st = map (\<lambda>i. (build_system,
                              web_build_user (cell_text (get_cell df i cn))
                                (if \<not> nt then persona else None) lang))
                     (filter (selected df cn tg ov) [0..<length (rows df)])"
       "processed st = length (rows df)"
       "printed st = concat (map (web_report gw persona nt ov lang cn tg df) [0..<length (rows df)])"
    by blast
  from r cn tg have w: "web_run gw persona nt uk ov lang cm cn tg df = Inr st"
    by (simp add: web_run_def Let_def ensure_column_present)
  have "get_cell (table st) i tg = web_outcome gw persona nt uk ov lang cm cn tg df i"
    if "i < length (rows df)" for i
  proof -
    have "col_index (columns df) tg < length (rows df ! i)"
      using wf_row [OF wf that] col_index_less [OF tg] by simp
    with c that show ?thesis
      by (simp add: get_cell_def cell_at_update)
  qed
  with w c show ?thesis by blast
qed

text \<open>
  Claim C4. In a table that has both columns, for the row at \<open>i\<close>, in the table a run ends
  with: a blank source cell leaves the target cell as it was; a target cell with non-blank
  text leaves it as it was when the overwrite flag is off; and when the source is not
  blank, the target holds non-blank text and the overwrite flag is on, the target cell is
  replaced by the translation the gateway returns for the row (normalized when that was
  asked for). This holds for the command-line loop whenever it reaches its final save, which
  it does at least when no custom map is normalized with, and for the web form's loop,
  which always ends.
\<close>

theorem filler_row_policy:
  assumes wf: "wf_df df" and cn: "cn \<in> set (columns df)" and tg: "tg \<in> set (columns df)"
    and i: "i < length (rows df)"
  shows
    "(\<forall>st. fill_main gw persona cm cn tg ov kbbi df = Inr st \<longrightarrow>
        (is_blank (cell_text (get_cell df i cn)) \<longrightarrow> get_cell (table st) i tg = get_cell df i tg)
      \<and> (\<not> is_blank (cell_text (get_cell df i tg)) \<and> \<not> ov \<longrightarrow>
           get_cell (table st) i tg = get_cell df i tg)
      \<and> (\<not> is_blank (cell_text (get_cell df i cn)) \<and> \<not> is_blank (cell_text (get_cell df i tg)) \<and> ov \<longrightarrow>
           (\<forall>out. gw (call_no df cn tg ov i) build_system
                     (build_user (cell_text (get_cell df i cn)) persona ''id'') = Inr out \<longrightarrow>
              (\<exists>out'. (if kbbi then normalize_indonesian out cm else Inr out) = Inr out'
                     \<and> get_cell (table st) i tg = Some out'))))
   \<and> ((kbbi \<longrightarrow> cm = None) \<longrightarrow> (\<exists>st. fill_main gw persona cm cn tg ov kbbi df = Inr st))
   \<and> (\<exists>st. web_run gw persona nt uk ov lang cm cn tg df = Inr st
      \<and> (is_blank (cell_text (get_cell df i cn)) \<longrightarrow> get_cell (table st) i tg = get_cell df i tg)
      \<and> (\<not> is_blank (cell_text (get_cell df i tg)) \<and> \<not> ov \<longrightarrow>
           get_cell (table st) i tg = get_cell df i tg)
      \<and> (\<not> is_blank (cell_text (get_cell df i cn)) \<and> \<not> is_blank (cell_text (get_cell df i tg)) \<and> ov \<longrightarrow>
           (\<forall>out. gw (call_no df cn tg ov i) build_system
                     (web_build_user (cell_text (get_cell df i cn))
                        (if \<not> nt then persona else None) lang) = Inr out \<longrightarrow>
              get_cell (table st) i tg =
                Some (if uk \<and> lang = ''id''
                      then (case normalize_indonesian out cm of Inl e \<Rightarrow> out | Inr r \<Rightarrow> r)
                      else out))))"
proof (intro conjI allI impI)
  fix st
  assume run: "fill_main gw persona cm cn tg ov kbbi df = Inr st"
  note m = fill_main_run [OF wf cn tg run]
  from m i have c: "get_cell (table st) i tg = cli_outcome gw persona cm cn tg ov kbbi df i"
    by blast
  {
    assume "is_blank (cell_text (get_cell df i cn))"
    then show "get_cell (table st) i tg = get_cell df i tg"
      using c by (simp add: cli_outcome_def selected_def)
  next
    assume "\<not> is_blank (cell_text (get_cell df i tg)) \<and> \<not> ov"
    then show "get_cell (table st) i tg = get_cell df i tg"
      using c by (simp add: cli_outcome_def selected_def)
  next
    fix out
    assume a: "\<not> is_blank (cell_text (get_cell df i cn)) \<and>
               \<not> is_blank (cell_text (get_cell df i tg)) \<and> ov"
      and g: "gw (call_no df cn tg ov i) build_system
                (build_user (cell_text (get_cell df i cn)) persona ''id'') = Inr out"
    from a have sel: "selected df cn tg ov i" by (simp add: selected_def)
    with m i g obtain out' where
      n: "(if kbbi then normalize_indonesian out cm else Inr out) = Inr out'"
      by blast
    with c sel g have "get_cell (table st) i tg = Some out'"
      by (simp add: cli_outcome_def)
    with n show "\<exists>out'. (if kbbi then normalize_indonesian out cm else Inr out) = Inr out'
                     \<and> get_cell (table st) i tg = Some out'"
      by blast
  }
next
  assume "kbbi \<longrightarrow> cm = None"
  then show "\<exists>st. fill_main gw persona cm cn tg ov kbbi df = Inr st"
    using cn by (rule fill_main_total)
next
  from web_run_main [OF wf cn tg, of gw persona nt uk ov lang cm]
  obtain st where w: "web_run gw persona nt uk ov lang cm cn tg df = Inr st"
    and c: "\<forall>i<length (rows df). get_cell (table st) i tg = web_outcome gw persona nt uk ov lang cm cn tg df i"
    by blast
  from c i have ci: "get_cell (table st) i tg = web_outcome gw persona nt uk ov lang cm cn tg df i"
    by blast
  have 1: "is_blank (cell_text (get_cell df i cn)) \<longrightarrow> get_cell (table st) i tg = get_cell df i tg"
    using ci by (simp add: web_outcome_def selected_def)
  have 2: "\<not> is_blank (cell_text (get_cell df i tg)) \<and> \<not> ov \<longrightarrow>
           get_cell (table st) i tg = get_cell df i tg"
    using ci by (simp add: web_outcome_def selected_def)
  have 3: "\<not> is_blank (cell_text (get_cell df i cn)) \<and> \<not> is_blank (cell_text (get_cell df i tg)) \<and> ov \<longrightarrow>
           (\<forall>out. gw (call_no df cn tg ov i) build_system
                     (web_build_user (cell_text (get_cell df i cn))
                        (if \<not> nt then persona else None) lang) = Inr out \<longrightarrow>
              get_cell (table st) i tg =
                Some (if uk \<and> lang = ''id''
                      then (case normalize_indonesian out cm of Inl e \<Rightarrow> out | Inr r \<Rightarrow> r)
                      else out))"
    using ci by (simp add: web_outcome_def selected_def)
  from w 1 2 3 show "\<exists>st. web_run gw persona nt uk ov lang cm cn tg df = Inr st
      \<and> (is_blank (cell_text (get_cell df i cn)) \<longrightarrow> get_cell (table st) i tg = get_cell df i tg)
      \<and> (\<not> is_blank (cell_text (get_cell df i tg)) \<and> \<not> ov \<longrightarrow>
           get_cell (table st) i tg = get_cell df i tg)
      \<and> (\<not> is_blank (cell_text (get_cell df i cn)) \<and> \<not> is_blank (cell_text (get_cell df i tg)) \<and> ov \<longrightarrow>
           (\<forall>out. gw (call_no df cn tg ov i) build_system
                     (web_build_user (cell_text (get_cell df i cn))
                        (if \<not> nt then persona else None) lang) = Inr out \<longrightarrow>
              get_cell (table st) i tg =
                Some (if uk \<and> lang = ''id''
                      then (case normalize_indonesian out cm of Inl e \<Rightarrow> out | Inr r \<Rightarrow> r)
                      else out)))"
    by blast
qed


text \<open>
  The theorem at a one-row table whose target cell holds text, with the overwrite flag on.
\<close>

theorem filler_row_policy_witness:
  "final_cell (fill_main (\<lambda>n s u. Inr ''udah, Halo'') None None ''zh'' ''id'' True True
       \<lparr>columns = [''zh'', ''id''], rows = [[Some ''ni hao'', Some ''lama'']]\<rparr>) 0 ''id''
     = Some (Some ''sudah, Halo'')
   \<and> final_cell (web_run (\<lambda>n s u. Inr ''udah, Halo'') None False True True ''id'' None ''zh'' ''id''
       \<lparr>columns = [''zh'', ''id''], rows = [[Some ''ni hao'', Some ''lama'']]\<rparr>) 0 ''id''
     = Some (Some ''sudah, Halo'')"
proof -
  let ?df = "\<lparr>columns = [''zh'', ''id''], rows = [[Some ''ni hao'', Some ''lama'']]\<rparr>"
  let ?gw = "\<lambda>(n::nat) (s::string) (u::string). (Inr ''udah, Halo'' :: string + string)"
  have wf: "wf_df ?df" by code_simp
  have cn: "''zh'' \<in> set (columns ?df)" by simp
  have tg: "''id'' \<in> set (columns ?df)" by simp
  have i: "0 < length (rows ?df)" by simp
  have src: "\<not> is_blank (cell_text (get_cell ?df 0 ''zh''))" by code_simp
  have tgt: "\<not> is_blank (cell_text (get_cell ?df 0 ''id''))" by code_simp
  have nz: "normalize_indonesian ''udah, Halo'' None = Inr ''sudah, Halo''" by code_simp
  note t = filler_row_policy [OF wf cn tg i, where gw = ?gw and persona = None and cm = None
      and ov = True and kbbi = True and nt = False and uk = True and lang = "''id''"]
  from t obtain st where st: "fill_main ?gw None None ''zh'' ''id'' True True ?df = Inr st"
    by blast
  with t src tgt nz have "get_cell (table st) 0 ''id'' = Some ''sudah, Halo''"
    by auto
  with st have a: "final_cell (fill_main ?gw None None ''zh'' ''id'' True True ?df) 0 ''id''
      = Some (Some ''sudah, Halo'')"
    by (simp add: final_cell_def)
  from t src tgt nz obtain st' where
    "web_run ?gw None False True True ''id'' None ''zh'' ''id'' ?df = Inr st'"
    "get_cell (table st') 0 ''id'' = Some ''sudah, Halo''"
    by auto
  then have "final_cell (web_run ?gw None False True True ''id'' None ''zh'' ''id'' ?df) 0 ''id''
      = Some (Some ''sudah, Halo'')"
    by (simp add: final_cell_def)
  with a show ?thesis by blast
qed




text \<open>
  Claim C8 at a custom map that sends \<open>udah\<close> to a number: the web form keeps the text of
  the gateway as it is, the command-line loop ends with the normalizer's exception and no
  table.
\<close>

theorem cli_normalizer_error_aborts:
  "fill_main (\<lambda>n s u. Inr ''udah'') None (Some (JObj [(''udah'', JNum 5)])) ''zh'' ''id'' False True
     \<lparr>columns = [''zh'', ''id''], rows = [[Some ''ni hao'', None]]\<rparr>
     = Inl TypeError
   \<and> final_cell
       (web_run (\<lambda>n s u. Inr ''udah'') None False True False ''id''
          (Some (JObj [(''udah'', JNum 5)])) ''zh'' ''id''
          \<lparr>columns = [''zh'', ''id''], rows = [[Some ''ni hao'', None]]\<rparr>) 0 ''id''
     = Some (Some ''udah'')"
  by code_simp

section \<open>Properties of the Persona Learner\<close>

lemma map_of_dict_set:
  "map_of (dict_set k v kvs) k' = (if k' = k then Some v else map_of kvs k')"
  by (induction kvs) auto



lemma dict_set_new: "k \<notin> set (map fst kvs) \<Longrightarrow> dict_set k v kvs = kvs @ [(k, v)]"
  by (induction kvs) auto

lemma fallback_valid:
  "valid_lang lang \<Longrightarrow> fallback_profile cid lang = Inr (minimal_profile cid lang)"
  by (simp add: fallback_profile_def validate_profile_def bind_err_def req_str_def opt_str_def
      str_list_def minimal_profile_def)

lemma fallback_invalid:
  "\<not> valid_lang lang \<Longrightarrow> fallback_profile cid lang = Inl (ValidationError ''target_lang'')"
  by (simp add: fallback_profile_def validate_profile_def bind_err_def req_str_def)

lemma validate_invalid_lang:
  "\<not> valid_lang lang \<Longrightarrow>
   validate_profile (dict_set ''target_lang'' (JStr lang) (dict_set ''character_id'' (JStr cid) kvs))
     = Inl (ValidationError ''target_lang'')"
  by (simp add: validate_profile_def bind_err_def req_str_def map_of_dict_set)

lemma parse_invalid_lang:
  "\<not> valid_lang lang \<Longrightarrow> \<exists>e. parse_response loads raw cid lang = Inl e"
  by (auto simp: parse_response_def Let_def validate_invalid_lang split: option.splits jval.splits)

lemma stored_valid:
  "valid_lang lang \<Longrightarrow>
   (case parse_response loads raw k lang of Inr p \<Rightarrow> Inr p | Inl e \<Rightarrow> fallback_profile k lang)
     = Inr (stored_profile loads raw k lang)"
  by (simp add: stored_profile_def fallback_valid split: sum.splits)

lemma stored_invalid:
  "\<not> valid_lang lang \<Longrightarrow>
   (case parse_response loads raw k lang of Inr p \<Rightarrow> Inr p | Inl e \<Rightarrow> fallback_profile k lang)
     = Inl (ValidationError ''target_lang'')"
  using parse_invalid_lang [of lang loads raw k] by (auto simp: fallback_invalid)

lemma learn_groups_skip:
  "learn_groups loads schema gw df cc tc lang n ks asked res =
   learn_groups loads schema gw df cc tc lang n
     (filter (\<lambda>k. tgt_lines df cc tc n k \<noteq> []) ks) asked res"
proof (induction ks arbitrary: asked res)
  case Nil
  then show ?case by simp
next
  case (Cons k ks)
  show ?case
  proof (cases "tgt_lines df cc tc n k = []")
    case True
    with Cons show ?thesis by simp
  next
    case False
    with Cons show ?thesis by (simp add: Let_def split: sum.splits)
  qed
qed


lemma learn_groups_ok:
  assumes "valid_lang lang"
    and "\<forall>k\<in>set ks. tgt_lines df cc tc n k \<noteq> []"
    and "distinct ks" and "set ks \<inter> set (map fst res) = {}"
    and "\<forall>i<length ks. \<exists>raw. gw (length asked + i) learn_system
                              (snd (learn_prompt schema df cc tc lang n (ks ! i))) = Inr raw"
  shows "learn_groups loads schema gw df cc tc lang n ks asked res =
           (asked @ map (learn_prompt schema df cc tc lang n) ks,
            Inr (res @ map (\<lambda>(i, k). (k, stored_profile loads
                                          (projr (gw i learn_system
                                             (snd (learn_prompt schema df cc tc lang n k)))) k lang))
                        (zip [length asked..<length asked + length ks] ks)))"
  using assms(2-)
proof (induction ks arbitrary: asked res)
  case Nil
  then show ?case by simp
next
  case (Cons k ks)
  from Cons.prems(1) have u: "tgt_lines df cc tc n k \<noteq> []" by simp
  from Cons.prems(4) obtain raw where
    raw: "gw (length asked) learn_system (learn_user schema n lang k (tgt_lines df cc tc n k)) = Inr raw"
    by (fastforce simp: learn_prompt_def)
  let ?p = "stored_profile loads raw k lang"
  let ?asked = "asked @ [learn_prompt schema df cc tc lang n k]"
  from Cons.prems(3) have new: "dict_set k ?p res = res @ [(k, ?p)]"
    by (simp add: dict_set_new)
  have 1: "\<forall>k\<in>set ks. tgt_lines df cc tc n k \<noteq> []" using Cons.prems(1) by simp
  have 2: "distinct ks" using Cons.prems(2) by simp
  have 3: "set ks \<inter> set (map fst (res @ [(k, ?p)])) = {}"
    using Cons.prems(2,3) by auto
  have 4: "\<forall>i<length ks. \<exists>raw. gw (length ?asked + i) learn_system
                              (snd (learn_prompt schema df cc tc lang n (ks ! i))) = Inr raw"
  proof (intro allI impI)
    fix i assume "i < length ks"
    then have "Suc i < length (k # ks)" by simp
    with Cons.prems(4) have "\<exists>raw. gw (length asked + Suc i) learn_system
                              (snd (learn_prompt schema df cc tc lang n ((k # ks) ! Suc i))) = Inr raw"
      by blast
    then show "\<exists>raw. gw (length ?asked + i) learn_system
                              (snd (learn_prompt schema df cc tc lang n (ks ! i))) = Inr raw"
      by simp
  qed
  note ih = Cons.IH [OF 1 2 3 4]
  have z: "[length asked..<length asked + length (k # ks)]
             = length asked # [length ?asked..<length ?asked + length ks]"
    by (simp add: upt_conv_Cons del: upt_Suc)
  show ?case
    unfolding z using u raw new ih stored_valid [OF assms(1), where loads = loads and raw = raw and k = k]
    by (simp add: Let_def learn_prompt_def)
qed

lemma learn_groups_gateway_error:
  assumes "valid_lang lang"
    and "\<forall>k\<in>set ks. tgt_lines df cc tc n k \<noteq> []"
    and "j < length ks"
    and "\<forall>i<j. \<exists>raw. gw (length asked + i) learn_system
                         (snd (learn_prompt schema df cc tc lang n (ks ! i))) = Inr raw"
    and "gw (length asked + j) learn_system (snd (learn_prompt schema df cc tc lang n (ks ! j))) = Inl msg"
  shows "learn_groups loads schema gw df cc tc lang n ks asked res =
           (asked @ map (learn_prompt schema df cc tc lang n) (take (Suc j) ks),
            Inl (GatewayError msg))"
  using assms(2-)
proof (induction ks arbitrary: j asked res)
  case Nil
  then show ?case by simp
next
  case (Cons k ks)
  from Cons.prems(1) have u: "tgt_lines df cc tc n k \<noteq> []" by simp
  show ?case
  proof (cases j)
    case 0
    with Cons.prems(4) u show ?thesis
      by (simp add: Let_def learn_prompt_def)
  next
    case (Suc j')
    with Cons.prems(3) obtain raw where
      raw: "gw (length asked) learn_system (learn_user schema n lang k (tgt_lines df cc tc n k)) = Inr raw"
      by (fastforce simp: learn_prompt_def)
    let ?asked = "asked @ [learn_prompt schema df cc tc lang n k]"
    have 1: "\<forall>k\<in>set ks. tgt_lines df cc tc n k \<noteq> []" using Cons.prems(1) by simp
    have 2: "j' < length ks" using Cons.prems(2) Suc by simp
    have 3: "\<forall>i<j'. \<exists>raw. gw (length ?asked + i) learn_system
                         (snd (learn_prompt schema df cc tc lang n (ks ! i))) = Inr raw"
    proof (intro allI impI)
      fix i assume "i < j'"
      then have "Suc i < j" using Suc by simp
      with Cons.prems(3) have "\<exists>raw. gw (length asked + Suc i) learn_system
                         (snd (learn_prompt schema df cc tc lang n ((k # ks) ! Suc i))) = Inr raw"
        by blast
      then show "\<exists>raw. gw (length ?asked + i) learn_system
                         (snd (learn_prompt schema df cc tc lang n (ks ! i))) = Inr raw"
        by simp
    qed
    have 4: "gw (length ?asked + j') learn_system
               (snd (learn_prompt schema df cc tc lang n (ks ! j'))) = Inl msg"
      using Cons.prems(4) Suc by simp
    note ih = Cons.IH [OF 1 2 3 4]
    show ?thesis
      using u raw ih Suc stored_valid [OF assms(1), where loads = loads and raw = raw and k = k]
      by (simp add: Let_def learn_prompt_def)
  qed
qed

lemma learn_groups_invalid_lang:
  assumes "\<not> valid_lang lang" and "tgt_lines df cc tc n k \<noteq> []"
    and "gw (length asked) learn_system (snd (learn_prompt schema df cc tc lang n k)) = Inr raw"
  shows "learn_groups loads schema gw df cc tc lang n (k # ks) asked res =
           (asked @ [learn_prompt schema df cc tc lang n k], Inl (ValidationError ''target_lang''))"
  using assms(2,3) stored_invalid [OF assms(1), where loads = loads and raw = raw and k = k]
  by (simp add: Let_def learn_prompt_def)





lemma distinct_group_keys: "distinct (group_keys df cc)"
  by (simp add: group_keys_def)

lemma distinct_usable_keys: "distinct (usable_keys df cc tc n)"
  by (simp add: usable_keys_def distinct_group_keys)

lemma usable_keys_usable: "\<forall>k\<in>set (usable_keys df cc tc n). tgt_lines df cc tc n k \<noteq> []"
  by (simp add: usable_keys_def)

lemma learn_present:
  assumes "cc \<in> set (columns df)" "sc \<in> set (columns df)" "tc \<in> set (columns df)"
  shows "learn_personas_from_csv loads schema gw df cc sc tc lang n mc =
           learn_groups loads schema gw (limit_rows mc df) cc tc lang n
             (usable_keys (limit_rows mc df) cc tc n) [] []"
proof -
  have "filter (\<lambda>c. c \<notin> set (columns df)) (remdups [cc, sc, tc]) = []"
    using assms by (auto simp: filter_empty_conv)
  then show ?thesis
    unfolding usable_keys_def learn_groups_skip [symmetric]
    by (simp add: learn_personas_from_csv_def Let_def)
qed

text \<open>
  Claim C9. When one of the three named columns is not in the table, the learner ends with
  the missing-columns error; the error lists exactly the named columns that are absent,
  and no prompt was sent to the gateway.
\<close>

theorem learner_missing_columns:
  assumes "cc \<notin> set (columns df) \<or> sc \<notin> set (columns df) \<or> tc \<notin> set (columns df)"
  shows "\<exists>ms. learn_personas_from_csv loads schema gw df cc sc tc lang n mc
                = ([], Inl (MissingColumns ms))
             \<and> ms \<noteq> []
             \<and> set ms = {c. (c = cc \<or> c = sc \<or> c = tc) \<and> c \<notin> set (columns df)}"
proof -
  let ?ms = "filter (\<lambda>c. c \<notin> set (columns df)) (remdups [cc, sc, tc])"
  have "set (remdups [cc, sc, tc]) = {cc, sc, tc}"
    by (simp only: set_remdups) simp
  then have mem: "c \<in> set ?ms \<longleftrightarrow> (c = cc \<or> c = sc \<or> c = tc) \<and> c \<notin> set (columns df)" for c
    by (simp only: set_filter mem_Collect_eq) blast
  then have s: "set ?ms = {c. (c = cc \<or> c = sc \<or> c = tc) \<and> c \<notin> set (columns df)}"
    by blast
  from assms mem obtain c where "c \<in> set ?ms" by blast
  then have ne: "?ms \<noteq> []" by (metis empty_iff empty_set)
  then have "learn_personas_from_csv loads schema gw df cc sc tc lang n mc
                = ([], Inl (MissingColumns ?ms))"
    unfolding learn_personas_from_csv_def Let_def by (rule if_P)
  with ne s show ?thesis by blast
qed

text \<open>
  Claim C10. With a target language other than \<open>en\<close> and \<open>id\<close>, once the gateway has
  returned a text for the first group that has sample lines, the call ends with the schema's
  validation error for \<open>target_lang\<close>: whatever the text is, the \<open>try\<close> block fails and the
  fallback profile fails the same validation. Only that one prompt was sent.
\<close>

theorem learner_invalid_language:
  assumes "cc \<in> set (columns df)" "sc \<in> set (columns df)" "tc \<in> set (columns df)"
    and "\<not> valid_lang lang"
    and "usable_keys (limit_rows mc df) cc tc n = k # rest"
    and "gw 0 learn_system (snd (learn_prompt schema (limit_rows mc df) cc tc lang n k)) = Inr raw"
  shows "learn_personas_from_csv loads schema gw df cc sc tc lang n mc =
           ([learn_prompt schema (limit_rows mc df) cc tc lang n k],
            Inl (ValidationError ''target_lang''))"
proof -
  have u: "tgt_lines (limit_rows mc df) cc tc n k \<noteq> []"
    using usable_keys_usable [of "limit_rows mc df" cc tc n] assms(5) by simp
  have g: "gw (length ([] :: (string \<times> string) list)) learn_system
             (snd (learn_prompt schema (limit_rows mc df) cc tc lang n k)) = Inr raw"
    using assms(6) by simp
  show ?thesis
    unfolding learn_present [OF assms(1-3)] assms(5)
      learn_groups_invalid_lang [where lang = lang and df = "limit_rows mc df" and cc = cc
        and tc = tc and n = n and k = k and gw = gw and asked = "[]" and schema = schema
        and raw = raw, OF assms(4) u g]
    by (simp only: append_Nil)
qed

text \<open>
  Claim C3, as the code has it. When the gateway raises for the group at position \<open>j\<close> of
  the groups with sample lines, after returning a text for each group before it, the learner
  ends with that error: no mapping is returned, and the prompts sent are those of the groups
  up to that one, so no later group is processed.
\<close>

theorem learner_gateway_error_aborts:
  assumes "cc \<in> set (columns df)" "sc \<in> set (columns df)" "tc \<in> set (columns df)"
    and "valid_lang lang"
    and "j < length (usable_keys (limit_rows mc df) cc tc n)"
    and "\<forall>i<j. \<exists>raw. gw i learn_system
            (snd (learn_prompt schema (limit_rows mc df) cc tc lang n
                    (usable_keys (limit_rows mc df) cc tc n ! i))) = Inr raw"
    and "gw j learn_system
            (snd (learn_prompt schema (limit_rows mc df) cc tc lang n
                    (usable_keys (limit_rows mc df) cc tc n ! j))) = Inl msg"
  shows "learn_personas_from_csv loads schema gw df cc sc tc lang n mc =
           (map (learn_prompt schema (limit_rows mc df) cc tc lang n)
              (take (Suc j) (usable_keys (limit_rows mc df) cc tc n)),
            Inl (GatewayError msg))"
proof -
  let ?d = "limit_rows mc df"
  let ?uk = "usable_keys ?d cc tc n"
  have a: "\<forall>i<j. \<exists>raw. gw (length ([] :: (string \<times> string) list) + i) learn_system
            (snd (learn_prompt schema ?d cc tc lang n (?uk ! i))) = Inr raw"
    using assms(6) by simp
  have b: "gw (length ([] :: (string \<times> string) list) + j) learn_system
            (snd (learn_prompt schema ?d cc tc lang n (?uk ! j))) = Inl msg"
    using assms(7) by simp
  show ?thesis
    unfolding learn_present [OF assms(1-3)]
      learn_groups_gateway_error [where lang = lang and ks = "?uk" and df = "?d" and cc = cc
        and tc = tc and n = n and gw = gw and asked = "[]" and res = "[]" and schema = schema
        and loads = loads and j = j and msg = msg,
        OF assms(4) usable_keys_usable assms(5) a b]
    by (simp only: append_Nil)
qed

text \<open>
  Claim C1, as the code has it. When the target language is \<open>en\<close> or \<open>id\<close> and the gateway
  returns a text for every group with sample lines, the learner returns a mapping whose keys
  are exactly those groups, in order; a group whose text fails the \<open>try\<close> block (no JSON
  between the first brace and the last, not a dict, or a schema violation) has the fallback
  minimal profile, and a group whose text passes has the validated profile.
\<close>

theorem learner_malformed_fallback:
  assumes "cc \<in> set (columns df)" "sc \<in> set (columns df)" "tc \<in> set (columns df)"
    and "valid_lang lang"
    and "\<forall>i<length (usable_keys (limit_rows mc df) cc tc n). \<exists>raw. gw i learn_system
            (snd (learn_prompt schema (limit_rows mc df) cc tc lang n
                    (usable_keys (limit_rows mc df) cc tc n ! i))) = Inr raw"
  shows "\<exists>res. snd (learn_personas_from_csv loads schema gw df cc sc tc lang n mc) = Inr res
             \<and> map fst res = usable_keys (limit_rows mc df) cc tc n
             \<and> (\<forall>i<length (usable_keys (limit_rows mc df) cc tc n). \<forall>raw.
                   gw i learn_system
                     (snd (learn_prompt schema (limit_rows mc df) cc tc lang n
                             (usable_keys (limit_rows mc df) cc tc n ! i))) = Inr raw \<longrightarrow>
                   ((\<exists>e. parse_response loads raw (usable_keys (limit_rows mc df) cc tc n ! i) lang = Inl e)
                      \<longrightarrow> snd (res ! i) =
                            minimal_profile (usable_keys (limit_rows mc df) cc tc n ! i) lang)
                 \<and> (\<forall>p. parse_response loads raw (usable_keys (limit_rows mc df) cc tc n ! i) lang = Inr p
                      \<longrightarrow> snd (res ! i) = p))"
proof -
  let ?d = "limit_rows mc df"
  let ?uk = "usable_keys ?d cc tc n"
  let ?res = "map (\<lambda>(i, k). (k, stored_profile loads
                      (projr (gw i learn_system (snd (learn_prompt schema ?d cc tc lang n k)))) k lang))
                  (zip [0..<length ?uk] ?uk)"
  have ok: "\<forall>i<length ?uk. \<exists>raw. gw (length ([] :: (string \<times> string) list) + i) learn_system
                 (snd (learn_prompt schema ?d cc tc lang n (?uk ! i))) = Inr raw"
    using assms(5) by simp
  have dis: "set ?uk \<inter> set (map fst ([] :: (string \<times> persona_profile) list)) = {}"
    by simp
  have run: "learn_personas_from_csv loads schema gw df cc sc tc lang n mc =
               (map (learn_prompt schema ?d cc tc lang n) ?uk, Inr ?res)"
    unfolding learn_present [OF assms(1-3)]
      learn_groups_ok [where lang = lang and ks = "?uk" and df = "?d" and cc = cc and tc = tc
        and n = n and gw = gw and asked = "[]" and res = "[]" and schema = schema and loads = loads,
        OF assms(4) usable_keys_usable distinct_usable_keys dis ok]
    by (simp only: append_Nil list.size add_0)
  have keys: "map fst ?res = ?uk"
    by (simp add: map_idI case_prod_beta comp_def)
  have at: "snd (?res ! i) = stored_profile loads raw (?uk ! i) lang"
    if "i < length ?uk"
      and "gw i learn_system (snd (learn_prompt schema ?d cc tc lang n (?uk ! i))) = Inr raw"
    for i raw
    using that by simp
  show ?thesis
  proof (intro exI conjI allI impI)
    show "snd (learn_personas_from_csv loads schema gw df cc sc tc lang n mc) = Inr ?res"
      using run by simp
    show "map fst ?res = ?uk" by (rule keys)
  next
    fix i raw
    assume i: "i < length ?uk"
      and g: "gw i learn_system (snd (learn_prompt schema ?d cc tc lang n (?uk ! i))) = Inr raw"
      and "\<exists>e. parse_response loads raw (?uk ! i) lang = Inl e"
    then show "snd (?res ! i) = minimal_profile (?uk ! i) lang"
      using at [OF i g] by (auto simp: stored_profile_def)
  next
    fix i raw p
    assume i: "i < length ?uk"
      and g: "gw i learn_system (snd (learn_prompt schema ?d cc tc lang n (?uk ! i))) = Inr raw"
      and "parse_response loads raw (?uk ! i) lang = Inr p"
    then show "snd (?res ! i) = p"
      using at [OF i g] by (auto simp: stored_profile_def)
  qed
qed






lemma sample_usable:
  "usable_keys (limit_rows None sample_table) ''character_id'' ''tgt'' 2 = [''klee'', ''paimon'']"
  by code_simp

lemma sample_columns:
  "''character_id'' \<in> set (columns sample_table)" "''zh_cn'' \<in> set (columns sample_table)"
  "''tgt'' \<in> set (columns sample_table)"
  by (simp_all add: sample_table_def)

text \<open>
  The theorem at the sample table, asked for a target column \<open>id_id\<close> it does not have.
\<close>

theorem learner_missing_columns_witness:
  "\<exists>ms. learn_personas_from_csv (\<lambda>t. None) ''S'' (\<lambda>n s u. Inr ''junk'') sample_table
           ''character_id'' ''zh_cn'' ''id_id'' ''id'' 2 None = ([], Inl (MissingColumns ms))
      \<and> set ms = {''id_id''}"
proof -
  have h: "''character_id'' \<notin> set (columns sample_table) \<or> ''zh_cn'' \<notin> set (columns sample_table)
           \<or> ''id_id'' \<notin> set (columns sample_table)"
    by (simp add: sample_table_def)
  have "{c. (c = ''character_id'' \<or> c = ''zh_cn'' \<or> c = ''id_id'') \<and> c \<notin> set (columns sample_table)}
          = {''id_id''}"
    by (auto simp: sample_table_def)
  with learner_missing_columns [OF h, where loads = "\<lambda>t. None" and schema = "''S''"
      and gw = "\<lambda>n s u. Inr ''junk''" and lang = "''id''" and n = 2 and mc = None]
  show ?thesis by auto
qed

text \<open>
  The theorem at the sample table and the language code \<open>fr\<close>.
\<close>

theorem learner_invalid_language_witness:
  "learn_personas_from_csv (\<lambda>t. None) ''S'' (\<lambda>n s u. Inr ''junk'') sample_table
      ''character_id'' ''zh_cn'' ''tgt'' ''fr'' 2 None =
     ([learn_prompt ''S'' (limit_rows None sample_table) ''character_id'' ''tgt'' ''fr'' 2 ''klee''],
      Inl (ValidationError ''target_lang''))"
proof -
  have v: "\<not> valid_lang ''fr''" by (simp add: valid_lang_def)
  have u: "usable_keys (limit_rows None sample_table) ''character_id'' ''tgt'' 2 = ''klee'' # [''paimon'']"
    by (rule sample_usable)
  have g: "(\<lambda>(n::nat) (s::string) (u::string). (Inr ''junk'' :: string + string)) 0 learn_system
             (snd (learn_prompt ''S'' (limit_rows None sample_table) ''character_id'' ''tgt'' ''fr'' 2 ''klee''))
           = Inr ''junk''"
    by simp
  show ?thesis
    by (rule learner_invalid_language [OF sample_columns v u g])
qed

text \<open>
  The theorem at the sample table, the second call raising.
\<close>

theorem learner_gateway_error_aborts_witness:
  "learn_personas_from_csv (\<lambda>t. None) ''S''
      (\<lambda>n s u. if n = 1 then Inl ''timeout'' else Inr ''junk'') sample_table
      ''character_id'' ''zh_cn'' ''tgt'' ''id'' 2 None =
     (map (learn_prompt ''S'' (limit_rows None sample_table) ''character_id'' ''tgt'' ''id'' 2)
        [''klee'', ''paimon''],
      Inl (GatewayError ''timeout''))"
proof -
  let ?gw = "\<lambda>(n::nat) (s::string) (u::string). if n = 1 then (Inl ''timeout'' :: string + string) else Inr ''junk''"
  let ?uk = "usable_keys (limit_rows None sample_table) ''character_id'' ''tgt'' 2"
  have v: "valid_lang ''id''" by (simp add: valid_lang_def)
  have j: "1 < length ?uk" by (simp add: sample_usable)
  have a: "\<forall>i<1. \<exists>raw. ?gw i learn_system
            (snd (learn_prompt ''S'' (limit_rows None sample_table) ''character_id'' ''tgt'' ''id'' 2
                    (?uk ! i))) = Inr raw"
    by simp
  have b: "?gw 1 learn_system
            (snd (learn_prompt ''S'' (limit_rows None sample_table) ''character_id'' ''tgt'' ''id'' 2
                    (?uk ! 1))) = Inl ''timeout''"
    by simp
  from learner_gateway_error_aborts [OF sample_columns v j a b, where loads = "\<lambda>t. None"]
  show ?thesis by (simp add: sample_usable)
qed

text \<open>
  Claim C3 as stated fails: at the sample table, whose groups with sample lines are
  \<open>klee\<close> and \<open>paimon\<close>, a gateway that raises for the first call only ends the whole run
  with that error after one prompt; \<open>paimon\<close> is never processed and nothing is returned.
\<close>

theorem learner_aborts_on_gateway_error:
  "learn_personas_from_csv (\<lambda>t. None) ''S''
      (\<lambda>n s u. if n = 0 then Inl ''timeout'' else Inr ''junk'') sample_table
      ''character_id'' ''zh_cn'' ''tgt'' ''id'' 2 None =
     ([(learn_system, learn_user ''S'' 2 ''id'' ''klee'' [''Bom''])], Inl (GatewayError ''timeout''))
   \<and> usable_keys (limit_rows None sample_table) ''character_id'' ''tgt'' 2 = [''klee'', ''paimon'']"
  by code_simp

text \<open>
  The theorem at the sample table with a gateway that returns text that is not JSON.
\<close>

theorem learner_malformed_fallback_witness:
  "\<exists>res. snd (learn_personas_from_csv (\<lambda>t. None) ''S'' (\<lambda>n s u. Inr ''junk'') sample_table
                ''character_id'' ''zh_cn'' ''tgt'' ''id'' 2 None) = Inr res
      \<and> map fst res = [''klee'', ''paimon'']
      \<and> snd (res ! 0) = minimal_profile ''klee'' ''id''
      \<and> snd (res ! 1) = minimal_profile ''paimon'' ''id''"
proof -
  let ?gw = "\<lambda>(n::nat) (s::string) (u::string). (Inr ''junk'' :: string + string)"
  let ?uk = "usable_keys (limit_rows None sample_table) ''character_id'' ''tgt'' 2"
  have v: "valid_lang ''id''" by (simp add: valid_lang_def)
  have a: "\<forall>i<length ?uk. \<exists>raw. ?gw i learn_system
            (snd (learn_prompt ''S'' (limit_rows None sample_table) ''character_id'' ''tgt'' ''id'' 2
                    (?uk ! i))) = Inr raw"
    by simp
  have p: "\<exists>e. parse_response (\<lambda>t. None) ''junk'' k ''id'' = Inl e" for k
    by (simp add: parse_response_def Let_def)
  from learner_malformed_fallback [OF sample_columns v a, where loads = "\<lambda>t. None"]
  obtain res where r: "snd (learn_personas_from_csv (\<lambda>t. None) ''S'' ?gw sample_table
                ''character_id'' ''zh_cn'' ''tgt'' ''id'' 2 None) = Inr res"
    and k: "map fst res = ?uk"
    and f: "\<forall>i<length ?uk. \<forall>raw.
                   ?gw i learn_system
                     (snd (learn_prompt ''S'' (limit_rows None sample_table) ''character_id'' ''tgt'' ''id'' 2
                             (?uk ! i))) = Inr raw \<longrightarrow>
                   ((\<exists>e. parse_response (\<lambda>t. None) raw (?uk ! i) ''id'' = Inl e)
                      \<longrightarrow> snd (res ! i) = minimal_profile (?uk ! i) ''id'')
                 \<and> (\<forall>p. parse_response (\<lambda>t. None) raw (?uk ! i) ''id'' = Inr p
                      \<longrightarrow> snd (res ! i) = p)"
    by blast
  from f p have "\<forall>i<length ?uk. snd (res ! i) = minimal_profile (?uk ! i) ''id''"
    by simp
  then have "snd (res ! 0) = minimal_profile ''klee'' ''id''"
    "snd (res ! 1) = minimal_profile ''paimon'' ''id''"
    by (simp_all add: sample_usable)
  with r k show ?thesis by (simp add: sample_usable)
qed

text \<open>
  Claim C1 as stated fails: with the language code \<open>fr\<close> a malformed text makes the learner
  raise, since the fallback profile does not validate either.
\<close>

theorem learner_fallback_raises:
  "snd (learn_personas_from_csv (\<lambda>t. None) ''S'' (\<lambda>n s u. Inr ''junk'') sample_table
          ''character_id'' ''zh_cn'' ''tgt'' ''fr'' 2 None)
     = Inl (ValidationError ''target_lang'')
   \<and> usable_keys (limit_rows None sample_table) ''character_id'' ''tgt'' 2 = [''klee'', ''paimon'']"
  by code_simp


section \<open>Properties of the Persona Store\<close>











lemma encode_head:
  "storable v \<Longrightarrow>
   \<exists>c cs. encode l v = c # cs \<and>
     (c = dquote \<or> c = CHR ''['' \<or> c = CHR ''{'' \<or> c = CHR ''n'' \<or> c = CHR ''t'' \<or> c = CHR ''f'')"
  by (cases v) (auto simp: encode_string_def)


lemma encode_nonempty: "storable v \<Longrightarrow> 0 < length (encode l v)"
  using encode_head [of v l] by auto



lemma length_py_join_Cons:
  "length x \<le> length (py_join sep (x # ys))"
  by (cases ys) simp_all












end
